theory Spec2Isabelle
  imports Complex_Main "HOL-Library.Word"
begin

unbundle bit_operations_syntax

section \<open>Crosshairs of the graph widget (generic/tko/tkoGraphHairs.c)\<close>

subsection \<open>Data\<close>

text \<open>
  X11's \<open>XPoint\<close> and \<open>XSegment\<close> hold C \<open>short\<close> coordinates: 16-bit words, read
  as two's complement by \<open>sint\<close>.
\<close>

type_synonym short = "16 word"

record XPoint =
  pt_x :: short
  pt_y :: short

record XSegment =
  seg_x1 :: short
  seg_y1 :: short
  seg_x2 :: short
  seg_y2 :: short

text \<open>
  A graphics context is a handle. The handle that \<open>RbcGetPrivateGC\<close> returns is an
  input of the model; what it is asked for is \<open>gcMask\<close> and \<open>gcValues\<close>. Pixel values
  (\<open>unsigned long\<close>) are natural numbers.
\<close>

type_synonym GC = nat

datatype gc_field = GCFunction | GCForeground | GCBackground | GCLineWidth | GCLineStyle

datatype gx_function = GXxor

datatype line_style = LineOnOffDash

text \<open>\<open>line_style\<close> is assigned only for dashed lines: \<open>None\<close> is the field left unset.\<close>

record XGCValues =
  gc_function :: gx_function
  gc_foreground :: nat
  gc_background :: nat
  gc_line_width :: int
  gc_line_style :: "line_style option"

text \<open>
  Of a \<open>Tk_Window\<close> the module reads its X window id (\<open>Tk_WindowId\<close>), whether it is
  mapped (\<open>Tk_IsMapped\<close>) and the white pixel of its screen (\<open>WhitePixelOfScreen\<close>).
\<close>

record Tk_Window =
  windowId :: nat
  mapped :: bool
  whitePixel :: nat

text \<open>
  The display is modelled as the list of the calls made on it, oldest first: the
  segments drawn by \<open>XDrawSegments(display, window, gc, segArr, 2)\<close>, and the calls of
  \<open>RbcGetPrivateGC(tkwin, gcMask, &gcValues)\<close>, \<open>RbcSetDashes(display, gc, &dashes)\<close> and
  \<open>RbcFreePrivateGC(display, gc)\<close> that \<open>RbcConfigureCrosshairs\<close> makes.
\<close>

datatype request =
    XDrawSegments nat "GC option" XSegment XSegment
  | RbcGetPrivateGC nat "gc_field list" XGCValues
  | RbcSetDashes GC "nat list"
  | RbcFreePrivateGC GC

fun is_XDrawSegments :: "request \<Rightarrow> bool" where
  "is_XDrawSegments (XDrawSegments w c s0 s1) = True"
| "is_XDrawSegments r = False"

text \<open>
  \<open>colorPtr\<close> points to an \<open>XColor\<close>, of which only \<open>pixel\<close> is read: \<open>None\<close> is the
  \<open>NULL\<close> pointer, \<open>Some p\<close> a colour with pixel \<open>p\<close>. \<open>dashes\<close> is the list of dash
  lengths.
\<close>

record RbcCrosshairs =
  hotSpot :: XPoint
  visible :: bool
  hidden :: bool
  dashes :: "nat list"
  lineWidth :: int
  segArr :: "XSegment \<times> XSegment"
  colorPtr :: "nat option"
  gc :: "GC option"

text \<open>
  The part of \<open>RbcGraph\<close> (declared in tkoGraph.h) that the module uses. \<open>graph->win\<close>
  is a pointer to a \<open>Tk_Window\<close> that may itself be \<open>NULL\<close>: two levels of \<open>option\<close>.
  \<open>plotBg\<close> is the plot's background colour, \<open>None\<close> when \<open>NULL\<close>, else its pixel.
  The plot's bounds take part in comparisons and assignments as C integers: they are
  \<open>int\<close> here, and storing one in a \<open>short\<close> field truncates it (\<open>word_of_int\<close>).
\<close>

record RbcGraph =
  win :: "Tk_Window option option"
  display :: "request list"
  plotBg :: "nat option"
  left :: int
  right :: int
  top_y :: int
  bottom :: int
  crosshairs :: RbcCrosshairs

text \<open>
  The macros \<open>RbcLineWidth\<close> and \<open>RbcLineIsDashed\<close> come from tkoGraph.h, which is not
  among the sources: they are parameters of the model.
\<close>

record tkoGraph_h =
  RbcLineWidth :: "int \<Rightarrow> int"
  RbcLineIsDashed :: "nat list \<Rightarrow> bool"

datatype tcl_result = TCL_OK | TCL_ERROR

text \<open>
  The test \<open>graph->win == NULL || *(graph->win) == NULL\<close> fails exactly when
  \<open>window g\<close> is some window.
\<close>

definition window :: "RbcGraph \<Rightarrow> Tk_Window option" where
  "window g = (case win g of None \<Rightarrow> None | Some None \<Rightarrow> None | Some (Some tkwin) \<Rightarrow> Some tkwin)"

subsection \<open>Drawing and erasing\<close>

definition TurnOffHairs :: "Tk_Window \<Rightarrow> RbcGraph \<Rightarrow> RbcGraph" where
  "TurnOffHairs tkwin g =
     (let chPtr = crosshairs g in
      if mapped tkwin \<and> visible chPtr then
        g\<lparr>display := display g @
             [XDrawSegments (windowId tkwin) (gc chPtr) (fst (segArr chPtr)) (snd (segArr chPtr))],
          crosshairs := chPtr\<lparr>visible := False\<rparr>\<rparr>
      else g)"

text \<open>The test "Coordinates are off the graph" of \<open>TurnOnHairs\<close>.\<close>

definition off_graph :: "RbcGraph \<Rightarrow> bool" where
  "off_graph g =
     (let chPtr = crosshairs g in
      sint (pt_x (hotSpot chPtr)) > right g
      \<or> sint (pt_x (hotSpot chPtr)) < left g
      \<or> sint (pt_y (hotSpot chPtr)) > bottom g
      \<or> sint (pt_y (hotSpot chPtr)) < top_y g)"

definition TurnOnHairs :: "RbcGraph \<Rightarrow> RbcGraph" where
  "TurnOnHairs g =
     (case window g of
        None \<Rightarrow> g
      | Some tkwin \<Rightarrow>
          (let chPtr = crosshairs g in
           if mapped tkwin \<and> \<not> visible chPtr then
             if off_graph g then g
             else g\<lparr>display := display g @
                    [XDrawSegments (windowId tkwin) (gc chPtr)
                       (fst (segArr chPtr)) (snd (segArr chPtr))],
                   crosshairs := chPtr\<lparr>visible := True\<rparr>\<rparr>
           else g))"

subsection \<open>The routines the graph widget calls\<close>

text \<open>
  What \<open>RbcConfigureCrosshairs\<close> asks of the display for the crosshairs \<open>chPtr\<close> whose
  colour has the pixel \<open>pixel\<close>: a private graphics context with the XOR function,
  the background of the plot (the screen's white when \<open>plotBg\<close> is \<open>NULL\<close>), that
  background XORed with the colour as foreground and the line width; the dashes, for
  a dashed line; and the release of the graphics context held before.
\<close>

definition gc_requests ::
    "tkoGraph_h \<Rightarrow> Tk_Window \<Rightarrow> GC \<Rightarrow> nat option \<Rightarrow> RbcCrosshairs \<Rightarrow> nat \<Rightarrow> request list" where
  "gc_requests h tkwin newGC bg chPtr pixel =
     (let colorValue = (case bg of None \<Rightarrow> whitePixel tkwin | Some p \<Rightarrow> p);
          dashed = RbcLineIsDashed h (dashes chPtr);
          gcValues = \<lparr>gc_function = GXxor,
                      gc_foreground = colorValue XOR pixel,
                      gc_background = colorValue,
                      gc_line_width = RbcLineWidth h (lineWidth chPtr),
                      gc_line_style = (if dashed then Some LineOnOffDash else None)\<rparr>;
          gcMask = [GCForeground, GCBackground, GCFunction, GCLineWidth]
                     @ (if dashed then [GCLineStyle] else [])
      in [RbcGetPrivateGC (windowId tkwin) gcMask gcValues]
           @ (if dashed then [RbcSetDashes newGC (dashes chPtr)] else [])
           @ (case gc chPtr of None \<Rightarrow> [] | Some oldGC \<Rightarrow> [RbcFreePrivateGC oldGC]))"

text \<open>
  \<open>RbcConfigureCrosshairs\<close>: erase, replace the graphics context by \<open>newGC\<close>, recompute
  both segments, and draw again unless hidden. The foreground is computed from
  \<open>chPtr->colorPtr->pixel\<close> with no test of \<open>colorPtr\<close>: for a \<open>NULL\<close> colour the function
  dereferences a null pointer, the result \<open>None\<close>.
\<close>

definition RbcConfigureCrosshairs :: "tkoGraph_h \<Rightarrow> GC \<Rightarrow> RbcGraph \<Rightarrow> RbcGraph option" where
  "RbcConfigureCrosshairs h newGC g =
     (case window g of
        None \<Rightarrow> Some g
      | Some tkwin \<Rightarrow>
          (let g1 = TurnOffHairs tkwin g;
               chPtr = crosshairs g1
           in case colorPtr chPtr of
                None \<Rightarrow> None
              | Some pixel \<Rightarrow>
                  (let seg0 = \<lparr>seg_x1 = pt_x (hotSpot chPtr), seg_y1 = word_of_int (bottom g1),
                               seg_x2 = pt_x (hotSpot chPtr), seg_y2 = word_of_int (top_y g1)\<rparr>;
                       seg1 = \<lparr>seg_x1 = word_of_int (left g1), seg_y1 = pt_y (hotSpot chPtr),
                               seg_x2 = word_of_int (right g1), seg_y2 = pt_y (hotSpot chPtr)\<rparr>;
                       g2 = g1\<lparr>display := display g1
                                  @ gc_requests h tkwin newGC (plotBg g1) chPtr pixel,
                               crosshairs := chPtr\<lparr>gc := Some newGC, segArr := (seg0, seg1)\<rparr>\<rparr>
                   in Some (if \<not> hidden (crosshairs g2) then TurnOnHairs g2 else g2))))"

definition RbcEnableCrosshairs :: "RbcGraph \<Rightarrow> RbcGraph" where
  "RbcEnableCrosshairs g = (if \<not> hidden (crosshairs g) then TurnOnHairs g else g)"

definition RbcDisableCrosshairs :: "RbcGraph \<Rightarrow> RbcGraph" where
  "RbcDisableCrosshairs g =
     (case window g of
        None \<Rightarrow> g
      | Some tkwin \<Rightarrow> if \<not> hidden (crosshairs g) then TurnOffHairs tkwin g else g)"

definition RbcUpdateCrosshairs :: "RbcGraph \<Rightarrow> RbcGraph" where
  "RbcUpdateCrosshairs g =
     (let chPtr = crosshairs g;
          seg0 = (fst (segArr chPtr))\<lparr>seg_y1 := word_of_int (bottom g),
                                       seg_y2 := word_of_int (top_y g)\<rparr>;
          seg1 = (snd (segArr chPtr))\<lparr>seg_x1 := word_of_int (left g),
                                       seg_x2 := word_of_int (right g)\<rparr>
      in g\<lparr>crosshairs := chPtr\<lparr>segArr := (seg0, seg1)\<rparr>\<rparr>)"

subsection \<open>Option parsing\<close>

text \<open>
  Modelled from the spec: \<open>Tk_ConfigureWidget\<close>, \<open>Tk_ConfigureInfo\<close> and
  \<open>RbcConfigureWidgetComponent\<close> are not under src/. Following the spec
  ("configuration parsing failures are reported as user-facing errors (invalid option
  value) without mutating prior state"), a parse either fails and leaves the record as
  it was, or succeeds and stores each given value in the field that \<open>configSpecs\<close>
  names for its option: -color, -dashes, -hide, -linewidth, -position.
\<close>

datatype option_value =
    Color nat
  | Dashes "nat list"
  | Hide bool
  | Linewidth int
  | Position XPoint

fun set_option :: "option_value \<Rightarrow> RbcCrosshairs \<Rightarrow> RbcCrosshairs" where
  "set_option (Color c) chPtr = chPtr\<lparr>colorPtr := Some c\<rparr>"
| "set_option (Dashes d) chPtr = chPtr\<lparr>dashes := d\<rparr>"
| "set_option (Hide b) chPtr = chPtr\<lparr>hidden := b\<rparr>"
| "set_option (Linewidth w) chPtr = chPtr\<lparr>lineWidth := w\<rparr>"
| "set_option (Position p) chPtr = chPtr\<lparr>hotSpot := p\<rparr>"

datatype parse = ParseError | Parsed "option_value list"

fun Tk_ConfigureWidget :: "parse \<Rightarrow> RbcCrosshairs \<Rightarrow> tcl_result \<times> RbcCrosshairs" where
  "Tk_ConfigureWidget ParseError chPtr = (TCL_ERROR, chPtr)"
| "Tk_ConfigureWidget (Parsed opts) chPtr = (TCL_OK, fold set_option opts chPtr)"

subsection \<open>Creation\<close>

text \<open>
  \<open>RbcCreateCrosshairs\<close>: the record comes zeroed from \<open>RbcCalloc\<close>, is marked hidden
  with the hot spot at \<open>(-1, -1)\<close>, and is then filled by
  \<open>RbcConfigureWidgetComponent\<close> with what the option database and the defaults of
  \<open>configSpecs\<close> give (\<open>defaults\<close>); the table has a default for the colour.
\<close>

definition RbcCalloc :: RbcCrosshairs where
  "RbcCalloc =
     \<lparr>hotSpot = \<lparr>pt_x = 0, pt_y = 0\<rparr>, visible = False, hidden = False, dashes = [],
      lineWidth = 0,
      segArr = (\<lparr>seg_x1 = 0, seg_y1 = 0, seg_x2 = 0, seg_y2 = 0\<rparr>,
                \<lparr>seg_x1 = 0, seg_y1 = 0, seg_x2 = 0, seg_y2 = 0\<rparr>),
      colorPtr = None, gc = None\<rparr>"

definition RbcCreateCrosshairs :: "parse \<Rightarrow> RbcGraph \<Rightarrow> tcl_result \<times> RbcGraph" where
  "RbcCreateCrosshairs defaults g =
     (case window g of
        None \<Rightarrow> (TCL_ERROR, g)
      | Some tkwin \<Rightarrow>
          (let chPtr = RbcCalloc\<lparr>hidden := True, hotSpot := \<lparr>pt_x = - 1, pt_y = - 1\<rparr>\<rparr>;
               (code, chPtr') = Tk_ConfigureWidget defaults chPtr
           in (code, g\<lparr>crosshairs := chPtr'\<rparr>)))"

subsection \<open>The widget command: configure, on, off, toggle\<close>

text \<open>
  \<open>ConfigureOp\<close>: with 3 or 4 words the command is a query answered by
  \<open>Tk_ConfigureInfo\<close> (its result is \<open>info\<close>); with more, the options are parsed and
  the crosshairs reconfigured. The result is \<open>None\<close> when \<open>RbcConfigureCrosshairs\<close>
  dereferences a null colour.
\<close>

definition ConfigureOp ::
    "tkoGraph_h \<Rightarrow> int \<Rightarrow> tcl_result \<Rightarrow> parse \<Rightarrow> GC \<Rightarrow> RbcGraph \<Rightarrow> (tcl_result \<times> RbcGraph) option" where
  "ConfigureOp h argc info args newGC g =
     (case window g of
        None \<Rightarrow> Some (TCL_ERROR, g)
      | Some tkwin \<Rightarrow>
          if argc = 3 then Some (info, g)
          else if argc = 4 then Some (info, g)
          else (case Tk_ConfigureWidget args (crosshairs g) of
                  (TCL_ERROR, chPtr) \<Rightarrow> Some (TCL_ERROR, g\<lparr>crosshairs := chPtr\<rparr>)
                | (TCL_OK, chPtr) \<Rightarrow>
                    (case RbcConfigureCrosshairs h newGC (g\<lparr>crosshairs := chPtr\<rparr>) of
                       None \<Rightarrow> None
                     | Some g' \<Rightarrow> Some (TCL_OK, g'))))"

definition OnOp :: "RbcGraph \<Rightarrow> tcl_result \<times> RbcGraph" where
  "OnOp g =
     (if hidden (crosshairs g) then
        (let g1 = TurnOnHairs g in (TCL_OK, g1\<lparr>crosshairs := (crosshairs g1)\<lparr>hidden := False\<rparr>\<rparr>))
      else (TCL_OK, g))"

definition OffOp :: "RbcGraph \<Rightarrow> tcl_result \<times> RbcGraph" where
  "OffOp g =
     (case window g of
        None \<Rightarrow> (TCL_ERROR, g)
      | Some tkwin \<Rightarrow>
          if \<not> hidden (crosshairs g) then
            (let g1 = TurnOffHairs tkwin g
             in (TCL_OK, g1\<lparr>crosshairs := (crosshairs g1)\<lparr>hidden := True\<rparr>\<rparr>))
          else (TCL_OK, g))"

definition ToggleOp :: "RbcGraph \<Rightarrow> tcl_result \<times> RbcGraph" where
  "ToggleOp g =
     (case window g of
        None \<Rightarrow> (TCL_ERROR, g)
      | Some tkwin \<Rightarrow>
          (let g1 = g\<lparr>crosshairs := (crosshairs g)\<lparr>hidden := \<not> hidden (crosshairs g)\<rparr>\<rparr>
           in if hidden (crosshairs g1) then (TCL_OK, TurnOffHairs tkwin g1)
              else (TCL_OK, TurnOnHairs g1)))"

subsection \<open>Sequences of calls\<close>

text \<open>
  Between two calls Tk may create, map, unmap or destroy the window, and the graph's
  layout may move the plot's bounds: every routine reads \<open>graph->win\<close>, \<open>Tk_IsMapped\<close>
  and the bounds anew each time it is called. \<open>WindowChange\<close> and \<open>PlotChange\<close> stand
  for these changes; the other calls are the module's entry points. A sequence stops,
  with \<open>None\<close>, at a call that dereferences a null colour.
\<close>

datatype call =
    Configure GC
  | Enable
  | Disable
  | Update
  | ConfigureCmd int tcl_result parse GC
  | On
  | Off
  | Toggle
  | WindowChange "Tk_Window option option"
  | PlotChange int int int int

fun exec :: "tkoGraph_h \<Rightarrow> call \<Rightarrow> RbcGraph \<Rightarrow> RbcGraph option" where
  "exec h (Configure newGC) g = RbcConfigureCrosshairs h newGC g"
| "exec h Enable g = Some (RbcEnableCrosshairs g)"
| "exec h Disable g = Some (RbcDisableCrosshairs g)"
| "exec h Update g = Some (RbcUpdateCrosshairs g)"
| "exec h (ConfigureCmd argc info args newGC) g =
     (case ConfigureOp h argc info args newGC g of None \<Rightarrow> None | Some (code, g') \<Rightarrow> Some g')"
| "exec h On g = Some (snd (OnOp g))"
| "exec h Off g = Some (snd (OffOp g))"
| "exec h Toggle g = Some (snd (ToggleOp g))"
| "exec h (WindowChange w) g = Some (g\<lparr>win := w\<rparr>)"
| "exec h (PlotChange l r t b) g = Some (g\<lparr>left := l, right := r, top_y := t, bottom := b\<rparr>)"

fun run :: "tkoGraph_h \<Rightarrow> call list \<Rightarrow> RbcGraph \<Rightarrow> RbcGraph option" where
  "run h [] g = Some g"
| "run h (c # cs) g = (case exec h c g of None \<Rightarrow> None | Some g' \<Rightarrow> run h cs g')"

text \<open>The window exists and is mapped: the only state in which segments are drawn.\<close>

definition drawable :: "RbcGraph \<Rightarrow> bool" where
  "drawable g = (case window g of None \<Rightarrow> False | Some tkwin \<Rightarrow> mapped tkwin)"

text \<open>
  \<open>stale g\<close>: the crosshairs are marked visible on a window that exists and is not
  mapped, so that \<open>TurnOffHairs\<close> will not clear the mark.
\<close>

definition stale :: "RbcGraph \<Rightarrow> bool" where
  "stale g =
     (visible (crosshairs g)
      \<and> (case window g of None \<Rightarrow> False | Some tkwin \<Rightarrow> \<not> mapped tkwin))"

text \<open>
  \<open>hides_unmapped c g\<close>: the call \<open>c\<close> hides the crosshairs of \<open>g\<close> while they are
  stale: the commands \<open>off\<close> and \<open>toggle\<close>, and a \<open>configure\<close> command whose options
  parse and leave \<open>-hide\<close> set.
\<close>

fun hides_unmapped :: "call \<Rightarrow> RbcGraph \<Rightarrow> bool" where
  "hides_unmapped Off g = stale g"
| "hides_unmapped Toggle g = stale g"
| "hides_unmapped (ConfigureCmd argc info (Parsed opts) newGC) g =
     (argc \<noteq> 3 \<and> argc \<noteq> 4 \<and> hidden (fold set_option opts (crosshairs g)) \<and> stale g)"
| "hides_unmapped c g = False"

text \<open>\<open>safe_run h cs g\<close>: no call of \<open>cs\<close>, run from \<open>g\<close>, hides stale crosshairs.\<close>

fun safe_run :: "tkoGraph_h \<Rightarrow> call list \<Rightarrow> RbcGraph \<Rightarrow> bool" where
  "safe_run h [] g = True"
| "safe_run h (c # cs) g =
     (\<not> hides_unmapped c g
      \<and> (case exec h c g of None \<Rightarrow> True | Some g' \<Rightarrow> safe_run h cs g'))"

text \<open>\<open>segments_sent g\<close>: how many \<open>XDrawSegments\<close> requests the display has received.\<close>

definition segments_sent :: "RbcGraph \<Rightarrow> nat" where
  "segments_sent g = length (filter is_XDrawSegments (display g))"

text \<open>
  \<open>in_step g\<close>: the crosshairs are marked visible exactly when the display has
  received an odd number of \<open>XDrawSegments\<close> requests, each of which toggles the
  XOR-drawn segments.
\<close>

definition in_step :: "RbcGraph \<Rightarrow> bool" where
  "in_step g = (odd (segments_sent g) = visible (crosshairs g))"

subsection \<open>Concrete graphs\<close>

text \<open>
  The macros as BLT, from which the widget derives, defines them; a graph whose
  window 7 is mapped and whose plot spans 10..200 by 10..100, with a zeroed crosshairs
  record; the same graph as \<open>RbcCreateCrosshairs\<close> leaves it when the defaults give
  the colour with pixel 0 and nothing else; and the same with the hot spot on the
  plot and not hidden.
\<close>

definition blt_macros :: tkoGraph_h where
  "blt_macros =
     \<lparr>RbcLineWidth = (\<lambda>w. if w > 1 then w else 0),
      RbcLineIsDashed = (\<lambda>d. case d of [] \<Rightarrow> False | v # vs \<Rightarrow> v \<noteq> 0)\<rparr>"

definition plot :: RbcGraph where
  "plot =
     \<lparr>win = Some (Some \<lparr>windowId = 7, mapped = True, whitePixel = 255\<rparr>), display = [],
      plotBg = None, left = 10, right = 200, top_y = 10, bottom = 100,
      crosshairs = RbcCalloc\<rparr>"

definition fresh_plot :: RbcGraph where
  "fresh_plot =
     plot\<lparr>crosshairs := RbcCalloc\<lparr>hidden := True, hotSpot := \<lparr>pt_x = - 1, pt_y = - 1\<rparr>,
                                     colorPtr := Some 0\<rparr>\<rparr>"

definition aimed_plot :: RbcGraph where
  "aimed_plot = plot\<lparr>crosshairs := RbcCalloc\<lparr>hotSpot := \<lparr>pt_x = 50, pt_y = 50\<rparr>,
                                                 colorPtr := Some 0\<rparr>\<rparr>"

text \<open>A coloured, not hidden record whose hot spot (0, 0) is left of the plot.\<close>

definition stray_plot :: RbcGraph where
  "stray_plot = plot\<lparr>crosshairs := RbcCalloc\<lparr>colorPtr := Some 0\<rparr>\<rparr>"

definition unmapped_window :: "Tk_Window option option" where
  "unmapped_window = Some (Some \<lparr>windowId = 7, mapped = False, whitePixel = 255\<rparr>)"

definition mapped_window :: "Tk_Window option option" where
  "mapped_window = Some (Some \<lparr>windowId = 7, mapped = True, whitePixel = 255\<rparr>)"

text \<open>
  The widget command shows the crosshairs at (50, 50); the window is unmapped; the
  widget command turns the crosshairs off. And the same with the window mapped again
  before they are turned off.
\<close>

definition unmap_then_off :: "call list" where
  "unmap_then_off =
     [ConfigureCmd 7 TCL_OK (Parsed [Hide False, Position \<lparr>pt_x = 50, pt_y = 50\<rparr>]) 3,
      WindowChange unmapped_window,
      Off]"

definition unmap_remap_off :: "call list" where
  "unmap_remap_off =
     [ConfigureCmd 7 TCL_OK (Parsed [Hide False, Position \<lparr>pt_x = 50, pt_y = 50\<rparr>]) 3,
      WindowChange unmapped_window,
      WindowChange mapped_window,
      Off]"

definition show_then_off :: "call list" where
  "show_then_off =
     [ConfigureCmd 7 TCL_OK (Parsed [Hide False, Position \<lparr>pt_x = 50, pt_y = 50\<rparr>]) 3, Off]"

section \<open>Printing on Windows (tkWinPrint.c)\<close>

subsection \<open>The device and the calls made on it\<close>

text \<open>
  The functions of this file compute almost nothing themselves: they call GDI and the
  print spooler and branch on what these return. The model takes every such return
  value from a record, and gives back, besides the Tcl result and the message left in
  the interpreter, the list of the calls made, in order.

  C \<open>int\<close> and \<open>LONG\<close> values are mathematical integers here: every one of them is a
  device capability, a font metric or a count bounded by the length of the text.
\<close>

datatype handle = DesktopDC | LogPalette | Palette | WindowDC | DIBitmap | MemoryDC | PrinterDC

datatype gdi_call =
    Acquire handle
  | Release handle
  | MakeWindowExist
  | BitBlt_call bool
  | GetObject_call bool
  | PrintDlg_call bool
  | StartDoc_call int
  | StartPage_call int
  | CalcRect_call string int
  | DrawText_call string int
  | StretchDIBits_call int int int int
  | EndPage_call int
  | EndDoc_call

datatype devcap =
    HORZRES | VERTRES | LOGPIXELSX | LOGPIXELSY
  | PHYSICALOFFSETX | PHYSICALOFFSETY | PHYSICALWIDTH | PHYSICALHEIGHT

text \<open>
  The printer as the print dialog hands it over. \<open>PrintDlg\<close> is whether the dialog
  returned \<open>TRUE\<close>, \<open>hDC\<close> whether the device context it returned is not \<open>NULL\<close>.
  \<open>StartPage\<close> and \<open>EndPage\<close> give the value returned for the \<open>n\<close>-th page of the
  job, counted from 0. \<open>DrawText_CALCRECT\<close> is \<open>DrawText\<close> with \<open>DT_CALCRECT\<close> (it
  measures the height the characters need in the page rectangle and draws nothing),
  \<open>DrawText\<close> the call that draws; both are given the characters passed, that is
  \<open>textcount\<close> characters from \<open>begin_text\<close>.
\<close>

record printer =
  PrintDlg :: bool
  hDC :: bool
  GetDeviceCaps :: "devcap \<Rightarrow> int"
  tmHeight :: int
  tmExternalLeading :: int
  tmAveCharWidth :: int
  MulDiv :: "int \<Rightarrow> int \<Rightarrow> int \<Rightarrow> int"
  StartDoc :: int
  StartPage :: "nat \<Rightarrow> int"
  DrawText_CALCRECT :: "string \<Rightarrow> int"
  DrawText :: "string \<Rightarrow> int"
  EndPage :: "nat \<Rightarrow> int"

record outcome =
  result :: tcl_result
  interp_result :: string
  calls :: "gdi_call list"

definition prepend :: "gdi_call list \<Rightarrow> outcome \<Rightarrow> outcome" where
  "prepend cs out = out\<lparr>calls := cs @ calls out\<rparr>"

text \<open>
  \<open>Tcl_WrongNumArgs(interp, 1, objv, message)\<close> leaves the standard message built
  from the command's first word.
\<close>

definition Tcl_WrongNumArgs :: "string list \<Rightarrow> string \<Rightarrow> string" where
  "Tcl_WrongNumArgs objv message =
     ''wrong # args: should be \"'' @ concat (map (\<lambda>w. w @ '' '') (take 1 objv)) @ message @ ''\"''"

text \<open>C's integer division truncates towards zero.\<close>

definition c_div :: "int \<Rightarrow> int \<Rightarrow> int" where
  "c_div a b = (if (a < 0) = (b < 0) then \<bar>a\<bar> div \<bar>b\<bar> else - (\<bar>a\<bar> div \<bar>b\<bar>))"

subsection \<open>Text: the page rectangle\<close>

text \<open>
  The rectangle \<open>r\<close> of \<open>WinTextPrint\<close> as (left, top, right, bottom): the printable
  area less the adjusted margins, inset by 100 device units on every side.
\<close>

definition text_rect :: "printer \<Rightarrow> int \<times> int \<times> int \<times> int" where
  "text_rect pr =
     (let dpi_x = GetDeviceCaps pr LOGPIXELSX;
          dpi_y = GetDeviceCaps pr LOGPIXELSY;
          margin_left = GetDeviceCaps pr PHYSICALOFFSETX;
          margin_top = GetDeviceCaps pr PHYSICALOFFSETY;
          printarea_horz = GetDeviceCaps pr HORZRES;
          printarea_vert = GetDeviceCaps pr VERTRES;
          phys_width = GetDeviceCaps pr PHYSICALWIDTH;
          phys_height = GetDeviceCaps pr PHYSICALHEIGHT;
          margin_right = phys_width - printarea_horz - margin_left;
          margin_bottom = phys_height - printarea_vert - margin_top;
          digital_margin_left = MulDiv pr margin_left dpi_x 1000;
          digital_margin_top = MulDiv pr margin_top dpi_y 1000;
          digital_margin_right = MulDiv pr margin_right dpi_x 1000;
          digital_margin_bottom = MulDiv pr margin_bottom dpi_y 1000;
          left_adjust_margin = digital_margin_left - margin_left;
          top_adjust_margin = digital_margin_top - margin_top;
          right_adjust_margin = digital_margin_right - margin_right;
          bottom_adjust_margin = digital_margin_bottom - margin_bottom;
          page_width = printarea_horz - (left_adjust_margin + right_adjust_margin);
          page_height = printarea_vert - (top_adjust_margin + bottom_adjust_margin)
      in (100, 100, page_width - 100, page_height - 100))"

definition r_bottom :: "printer \<Rightarrow> int" where
  "r_bottom pr = (case text_rect pr of (r_left, r_top, r_right, bottom_edge) \<Rightarrow> bottom_edge)"

subsection \<open>Text: how many characters go on a page\<close>

text \<open>
  The \<open>while (textrange_low < textrange_high)\<close> loop of \<open>WinTextPrint\<close>. Its body ends
  in an unconditional \<open>break\<close>, so it runs once when the range is not empty and never
  otherwise: one measurement, of all the \<open>remaining\<close> characters. The result is the
  final \<open>textcount\<close> and the measuring call made.
\<close>

definition fit_text :: "printer \<Rightarrow> string \<Rightarrow> int \<Rightarrow> int \<times> gdi_call list" where
  "fit_text pr begin_text remaining =
     (let textrange_low = 0;
          textrange_high = remaining;
          textcount = textrange_high
      in if textrange_low < textrange_high then
           (let testheight = DrawText_CALCRECT pr (take (nat textcount) begin_text);
                low1 = (if testheight < r_bottom pr then textcount else textrange_low);
                high1 = (if testheight > r_bottom pr then textcount else textrange_high);
                low2 = (if low1 = high1 - 1 then high1 else low1);
                textcount1 = (if low2 < high1 then low2 + c_div (high1 - low2) 2 else textcount)
            in (textcount1, [CalcRect_call (take (nat textcount) begin_text) testheight]))
         else (textcount, []))"

subsection \<open>Text: the page loop\<close>

text \<open>
  The \<open>for\<close> loop of \<open>WinTextPrint\<close>, entered with \<open>output\<close> as \<open>StartDoc\<close> returned it
  and \<open>text_done = 0\<close>. \<open>n\<close> counts the pages started (the loop's \<open>page\<close> is
  \<open>pd.nMinPage + n\<close> and is not read otherwise). An error return inside the loop leaves
  at once; leaving the loop normally ends the document and deletes the device context.
\<close>

function print_pages :: "printer \<Rightarrow> string \<Rightarrow> nat \<Rightarrow> int \<Rightarrow> int \<Rightarrow> outcome" where
  "print_pages pr data n output text_done =
     (let printlen = int (length data) in
      if output \<ge> 0 \<and> text_done < printlen then
        (let started = StartPage pr n in
         if started = 0 then
           \<lparr>result = TCL_ERROR, interp_result = ''unable to start page'',
            calls = [StartPage_call started]\<rparr>
         else
           (let begin_text = drop (nat text_done) data;
                fitted = fit_text pr begin_text (printlen - text_done);
                textcount = fst fitted;
                drawn = DrawText pr (take (nat textcount) begin_text)
            in if drawn = 0 then
                 \<lparr>result = TCL_ERROR, interp_result = ''unable to draw text'',
                  calls = [StartPage_call started] @ snd fitted
                    @ [DrawText_call (take (nat textcount) begin_text) drawn]\<rparr>
               else
                 (let ended = EndPage pr n in
                  if ended = 0 then
                    \<lparr>result = TCL_ERROR, interp_result = ''unable to end page'',
                     calls = [StartPage_call started] @ snd fitted
                       @ [DrawText_call (take (nat textcount) begin_text) drawn,
                          EndPage_call ended]\<rparr>
                  else
                    prepend ([StartPage_call started] @ snd fitted
                       @ [DrawText_call (take (nat textcount) begin_text) drawn,
                          EndPage_call ended])
                      (print_pages pr data (Suc n) ended (text_done + textcount)))))
      else \<lparr>result = TCL_OK, interp_result = [], calls = [EndDoc_call, Release PrinterDC]\<rparr>)"
  by pat_completeness auto
termination
proof (relation "measure (\<lambda>(pr, data, n, output, text_done). nat (int (length data) - text_done))")
  show "wf (measure (\<lambda>(pr, data, n, output, text_done). nat (int (length data) - text_done)))"
    by simp
next
  fix pr :: printer and data :: string and n :: nat and outp text_done printlen started :: int
    and begin_text :: string and fitted :: "int \<times> gdi_call list" and textcount drawn ended :: int
  assume "printlen = int (length data)" and "0 \<le> outp \<and> text_done < printlen"
    and "begin_text = drop (nat text_done) data"
    and "fitted = fit_text pr begin_text (printlen - text_done)"
    and "textcount = fst fitted"
  then have "0 < textcount" and "text_done < int (length data)"
    by (auto simp add: fit_text_def c_div_def Let_def)
  then show "((pr, data, Suc n, ended, text_done + textcount), pr, data, n, outp, text_done)
      \<in> measure (\<lambda>(pr, data, n, output, text_done). nat (int (length data) - text_done))"
    by simp
qed

subsection \<open>Text: the command\<close>

text \<open>
  \<open>WinTextPrint\<close>. \<open>objv\<close> is the command's words, so \<open>objc \<noteq> 2\<close> is any list that is
  not a command name and one text. The function divides by the font's average
  character width, by its line height and by the number of lines on a page (the
  quotients are never read): a zero divisor is undefined behaviour, the result \<open>None\<close>.
\<close>

definition WinTextPrint :: "printer \<Rightarrow> string list \<Rightarrow> outcome option" where
  "WinTextPrint pr objv =
     (case objv of
        [cmd, data] \<Rightarrow>
          if PrintDlg pr then
            if \<not> hDC pr then
              Some \<lparr>result = TCL_ERROR, interp_result = ''can't allocate printer DC'',
                    calls = [PrintDlg_call True]\<rparr>
            else
              (let yChar = tmHeight pr + tmExternalLeading pr in
               if tmAveCharWidth pr = 0 \<or> yChar = 0 then None
               else if c_div (GetDeviceCaps pr VERTRES) yChar = 0 then None
               else
                 (let output = StartDoc pr in
                  if output = 0 then
                    Some \<lparr>result = TCL_ERROR, interp_result = ''unable to start document'',
                          calls = [PrintDlg_call True, Acquire PrinterDC, StartDoc_call output]\<rparr>
                  else
                    Some (prepend [PrintDlg_call True, Acquire PrinterDC, StartDoc_call output]
                            (print_pages pr data 0 output 0))))
          else Some \<lparr>result = TCL_OK, interp_result = [], calls = [PrintDlg_call False]\<rparr>
      | _ \<Rightarrow>
          Some \<lparr>result = TCL_ERROR, interp_result = Tcl_WrongNumArgs objv ''text'', calls = []\<rparr>)"

subsection \<open>Canvas: the snapshot of a window\<close>

text \<open>
  What \<open>WinCanvasPrint\<close> finds on the screen side: whether \<open>Tk_NameToWindow\<close> resolves
  the path (\<open>found\<close>), whether the window already has an X id (\<open>realized\<close>), whether
  the desktop is a palette device and \<open>CreatePalette\<close> returns a palette, and whether
  \<open>BitBlt\<close> and \<open>GetObject\<close> succeed; \<open>Tk_Width\<close> and \<open>Tk_Height\<close> are the window's size. \<open>TkWinGetDrawableDC\<close>, \<open>CreateDIBSection\<close>,
  \<open>CreateCompatibleDC\<close> and \<open>GlobalAlloc\<close> are used unchecked by the code and each
  acquires its handle here.
\<close>

record screen =
  found :: bool
  realized :: bool
  Tk_Width :: int
  Tk_Height :: int
  RC_PALETTE :: bool
  CreatePalette :: bool
  BitBlt :: bool
  GetObject :: bool

definition WinGetSystemPalette :: "screen \<Rightarrow> bool \<times> gdi_call list" where
  "WinGetSystemPalette sc =
     (if RC_PALETTE sc then
        (CreatePalette sc,
         [Acquire DesktopDC, Acquire LogPalette]
           @ (if CreatePalette sc then [Acquire Palette] else [])
           @ [Release LogPalette, Release DesktopDC])
      else (False, [Acquire DesktopDC, Release DesktopDC]))"

text \<open>
  The size of the printed image. \<open>sx\<close>, \<open>sy\<close>, \<open>scale\<close>, \<open>pageWidth\<close> and
  \<open>pageHeight\<close> are C \<open>double\<close>s, taken here as real numbers (the arithmetic is exact
  wherever the quotients are binary fractions); \<open>fmin\<close> is the minimum. \<open>StretchDIBits\<close>
  takes \<open>int\<close> arguments, so \<open>pageWidth\<close> and \<open>pageHeight\<close> are converted on the call:
  a \<open>double\<close> converts to \<open>int\<close> by truncation towards zero.
\<close>

definition c_trunc :: "real \<Rightarrow> int" where
  "c_trunc v = (if 0 \<le> v then \<lfloor>v\<rfloor> else \<lceil>v\<rceil>)"

definition scale :: "screen \<Rightarrow> printer \<Rightarrow> real" where
  "scale sc pr =
     (let sx = real_of_int (GetDeviceCaps pr HORZRES) / real_of_int (Tk_Width sc);
          sy = real_of_int (GetDeviceCaps pr VERTRES) / real_of_int (Tk_Height sc)
      in min sx sy)"

definition pageWidth :: "screen \<Rightarrow> printer \<Rightarrow> real" where
  "pageWidth sc pr = scale sc pr * real_of_int (Tk_Width sc)"

definition pageHeight :: "screen \<Rightarrow> printer \<Rightarrow> real" where
  "pageHeight sc pr = scale sc pr * real_of_int (Tk_Height sc)"

text \<open>
  \<open>WinCanvasPrint\<close>. The label \<open>done\<close> stands inside the branch taken when the dialog
  returned \<open>TRUE\<close>; the jumps to it from before the dialog land there all the same. The
  other branch of the dialog returns at once. \<open>StretchDIBits_call\<close> records the
  destination width and height and the source width and height.
\<close>

definition WinCanvasPrint :: "screen \<Rightarrow> printer \<Rightarrow> string list \<Rightarrow> outcome" where
  "WinCanvasPrint sc pr objv =
     (case objv of
        cmd # path # rest \<Rightarrow>
          if \<not> found sc then
            \<lparr>result = TCL_ERROR, interp_result = ''bad window path name \"'' @ path @ ''\"'',
             calls = []\<rparr>
          else
            (let hPalette = WinGetSystemPalette sc;
                 setup = (if realized sc then [] else [MakeWindowExist])
                   @ [Acquire WindowDC, Acquire DIBitmap, Acquire MemoryDC] @ snd hPalette;
                 done = [Release DIBitmap, Release MemoryDC, Release WindowDC]
                   @ (if fst hPalette then [Release Palette] else [])
             in if \<not> BitBlt sc then
                  \<lparr>result = TCL_ERROR, interp_result = ''can't blit \"'' @ path,
                   calls = setup @ [BitBlt_call False] @ done\<rparr>
                else if \<not> GetObject sc then
                  \<lparr>result = TCL_ERROR, interp_result = ''can't get DIB object'',
                   calls = setup @ [BitBlt_call True, GetObject_call False] @ done\<rparr>
                else if PrintDlg pr then
                  (let shown = setup @ [BitBlt_call True, GetObject_call True, PrintDlg_call True]
                   in if \<not> hDC pr then
                        \<lparr>result = TCL_ERROR, interp_result = ''can't allocate printer DC'',
                         calls = shown @ done\<rparr>
                      else
                        (let jobId = StartDoc pr in
                         if jobId \<le> 0 then
                           \<lparr>result = TCL_ERROR, interp_result = ''can't start document'',
                            calls = shown @ [Acquire PrinterDC, StartDoc_call jobId] @ done\<rparr>
                         else if StartPage pr 0 \<le> 0 then
                           \<lparr>result = TCL_ERROR, interp_result = ''error starting page'',
                            calls = shown @ [Acquire PrinterDC, StartDoc_call jobId,
                              StartPage_call (StartPage pr 0)] @ done\<rparr>
                         else
                           \<lparr>result = TCL_OK, interp_result = [],
                            calls = shown @ [Acquire PrinterDC, StartDoc_call jobId,
                              StartPage_call (StartPage pr 0),
                              StretchDIBits_call (c_trunc (pageWidth sc pr))
                                (c_trunc (pageHeight sc pr)) (Tk_Width sc) (Tk_Height sc),
                              EndPage_call (EndPage pr 0), EndDoc_call, Release PrinterDC]
                              @ done\<rparr>))
                else
                  \<lparr>result = TCL_ERROR, interp_result = [],
                   calls = setup @ [BitBlt_call True, GetObject_call True, PrintDlg_call False]\<rparr>)
      | _ \<Rightarrow>
          \<lparr>result = TCL_ERROR, interp_result = Tcl_WrongNumArgs objv ''window'', calls = []\<rparr>)"

text \<open>
  \<open>leaked cs\<close>: the handles that the calls \<open>cs\<close> acquired and did not release, in the
  order of their acquisition.
\<close>

fun holding :: "handle list \<Rightarrow> gdi_call list \<Rightarrow> handle list" where
  "holding hs [] = hs"
| "holding hs (Acquire h # cs) = holding (hs @ [h]) cs"
| "holding hs (Release h # cs) = holding (remove1 h hs) cs"
| "holding hs (c # cs) = holding hs cs"

definition leaked :: "gdi_call list \<Rightarrow> handle list" where
  "leaked cs = holding [] cs"

subsection \<open>Failures of printer calls\<close>

text \<open>
  \<open>WinTextPrint\<close> takes a return value of 0 from \<open>StartDoc\<close>, \<open>StartPage\<close>, the drawing
  \<open>DrawText\<close> and \<open>EndPage\<close> as that call's failure, and has one message for each.
\<close>

fun failed :: "gdi_call \<Rightarrow> bool" where
  "failed (StartDoc_call v) = (v = 0)"
| "failed (StartPage_call v) = (v = 0)"
| "failed (DrawText_call s v) = (v = 0)"
| "failed (EndPage_call v) = (v = 0)"
| "failed c = False"

fun complaint :: "gdi_call \<Rightarrow> string" where
  "complaint (StartDoc_call v) = ''unable to start document''"
| "complaint (StartPage_call v) = ''unable to start page''"
| "complaint (DrawText_call s v) = ''unable to draw text''"
| "complaint (EndPage_call v) = ''unable to end page''"
| "complaint c = []"

subsection \<open>Concrete devices and texts\<close>

text \<open>
  A 600 dpi printer with an 11 inch printable height and lines 100 device units high.
  Every character of the texts printed on it below is a newline, so a text of \<open>k\<close>
  characters is measured and drawn \<open>100 * k\<close> units high.
\<close>

definition letter_caps :: "devcap \<Rightarrow> int" where
  "letter_caps c =
     (case c of HORZRES \<Rightarrow> 4900 | VERTRES \<Rightarrow> 6600 | LOGPIXELSX \<Rightarrow> 600 | LOGPIXELSY \<Rightarrow> 600
      | PHYSICALOFFSETX \<Rightarrow> 100 | PHYSICALOFFSETY \<Rightarrow> 100
      | PHYSICALWIDTH \<Rightarrow> 5100 | PHYSICALHEIGHT \<Rightarrow> 6800)"

definition letter_printer :: printer where
  "letter_printer =
     \<lparr>PrintDlg = True, hDC = True, GetDeviceCaps = letter_caps,
      tmHeight = 100, tmExternalLeading = 0, tmAveCharWidth = 60,
      MulDiv = (\<lambda>a b c. (a * b + c div 2) div c),
      StartDoc = 1, StartPage = (\<lambda>n. 1),
      DrawText_CALCRECT = (\<lambda>s. 100 * int (length s)),
      DrawText = (\<lambda>s. 100 * int (length s)),
      EndPage = (\<lambda>n. 1)\<rparr>"

definition newlines :: "nat \<Rightarrow> string" where
  "newlines k = replicate k (CHR 0x0A)"

text \<open>A window that is found, realized and copied without error, on a true-colour desktop.\<close>

definition plain_screen :: screen where
  "plain_screen =
     \<lparr>found = True, realized = True, Tk_Width = 640, Tk_Height = 480,
      RC_PALETTE = False, CreatePalette = False, BitBlt = True, GetObject = True\<rparr>"




text \<open>
  \<open>sound out\<close>: either no call of \<open>out\<close> failed and an error result carries a
  message, or exactly the last call failed and the result is the error of that call.
\<close>

definition sound :: "outcome \<Rightarrow> bool" where
  "sound out =
     ((\<forall>c \<in> set (calls out). \<not> failed c)
        \<and> (result out = TCL_ERROR \<longrightarrow> interp_result out \<noteq> [])
      \<or> (\<exists>pre c. calls out = pre @ [c] \<and> (\<forall>x \<in> set pre. \<not> failed x) \<and> failed c
            \<and> result out = TCL_ERROR \<and> interp_result out = complaint c))"

section \<open>Properties of the crosshairs\<close>

subsection \<open>Auxiliary facts\<close>

lemma set_option_visible: "visible (set_option v chPtr) = visible chPtr"
  by (cases v) simp_all

lemma fold_set_option_visible: "visible (fold set_option opts chPtr) = visible chPtr"
  by (induction opts arbitrary: chPtr) (simp_all add: set_option_visible)

lemma TurnOnHairs_undrawable: "\<not> drawable g \<Longrightarrow> TurnOnHairs g = g"
  by (auto simp add: TurnOnHairs_def drawable_def split: option.splits)

lemma TurnOffHairs_unmapped: "\<not> mapped tkwin \<Longrightarrow> TurnOffHairs tkwin g = g"
  by (simp add: TurnOffHairs_def)

lemma drawable_crosshairs_update [simp]: "drawable (g\<lparr>crosshairs := chPtr\<rparr>) = drawable g"
  by (simp add: drawable_def window_def)

lemma window_crosshairs_update [simp]: "window (g\<lparr>crosshairs := chPtr\<rparr>) = window g"
  by (simp add: window_def)

lemma window_display_update [simp]: "window (g\<lparr>display := rs\<rparr>) = window g"
  by (simp add: window_def)

lemma gc_requests_visible [simp]:
  "gc_requests h tkwin newGC bg (chPtr\<lparr>visible := b\<rparr>) pixel = gc_requests h tkwin newGC bg chPtr pixel"
  by (simp add: gc_requests_def Let_def)

lemma gc_requests_no_segments [simp]:
  "filter is_XDrawSegments (gc_requests h tkwin newGC bg chPtr pixel) = []"
  by (simp add: gc_requests_def Let_def split: option.splits)

lemma RbcConfigureCrosshairs_unmapped:
  assumes "window g = Some tkwin" and "\<not> mapped tkwin" and "colorPtr (crosshairs g) = Some pixel"
  shows "\<exists>g'. RbcConfigureCrosshairs h newGC g = Some g'
    \<and> display g' = display g @ gc_requests h tkwin newGC (plotBg g) (crosshairs g) pixel
    \<and> filter is_XDrawSegments (display g') = filter is_XDrawSegments (display g)
    \<and> visible (crosshairs g') = visible (crosshairs g)
    \<and> hidden (crosshairs g') = hidden (crosshairs g)
    \<and> gc (crosshairs g') = Some newGC
    \<and> segArr (crosshairs g') =
        (\<lparr>seg_x1 = pt_x (hotSpot (crosshairs g)), seg_y1 = word_of_int (bottom g),
          seg_x2 = pt_x (hotSpot (crosshairs g)), seg_y2 = word_of_int (top_y g)\<rparr>,
         \<lparr>seg_x1 = word_of_int (left g), seg_y1 = pt_y (hotSpot (crosshairs g)),
          seg_x2 = word_of_int (right g), seg_y2 = pt_y (hotSpot (crosshairs g))\<rparr>)"
proof -
  have off: "TurnOffHairs tkwin g = g"
    using assms(2) by (rule TurnOffHairs_unmapped)
  have on: "TurnOnHairs g2 = g2" if "window g2 = Some tkwin" for g2
    using that assms(2) by (simp add: TurnOnHairs_def)
  show ?thesis
    using assms by (simp add: RbcConfigureCrosshairs_def off on Let_def)
qed

lemma ConfigureOp_undrawable:
  assumes "\<not> drawable g" and "ConfigureOp h argc info args newGC g = Some (code, g')"
  shows "filter is_XDrawSegments (display g') = filter is_XDrawSegments (display g)
    \<and> visible (crosshairs g') = visible (crosshairs g)"
proof (cases "window g")
  case None
  with assms(2) show ?thesis by (simp add: ConfigureOp_def)
next
  case (Some tkwin)
  with assms(1) have unmapped: "\<not> mapped tkwin" by (simp add: drawable_def)
  show ?thesis
  proof (cases args)
    case ParseError
    with Some assms(2) show ?thesis
      by (auto simp add: ConfigureOp_def split: if_splits)
  next
    case (Parsed opts)
    let ?g = "g\<lparr>crosshairs := fold set_option opts (crosshairs g)\<rparr>"
    show ?thesis
    proof (cases "argc = 3 \<or> argc = 4")
      case True
      with Some assms(2) show ?thesis by (auto simp add: ConfigureOp_def)
    next
      case False
      with Some Parsed assms(2) have conf: "RbcConfigureCrosshairs h newGC ?g = Some g'"
        by (auto simp add: ConfigureOp_def split: option.splits)
      then obtain pixel where col: "colorPtr (crosshairs ?g) = Some pixel"
        using Some unmapped
        by (auto simp add: RbcConfigureCrosshairs_def TurnOffHairs_unmapped Let_def
            split: option.splits)
      have win: "window ?g = Some tkwin" using Some by simp
      from RbcConfigureCrosshairs_unmapped [OF win unmapped col, of h newGC] conf
      show ?thesis by (auto simp add: fold_set_option_visible)
    qed
  qed
qed

lemmas plot_eval =
  plot_def fresh_plot_def aimed_plot_def stray_plot_def unmapped_window_def mapped_window_def
  unmap_then_off_def unmap_remap_off_def show_then_off_def blt_macros_def
  RbcCreateCrosshairs_def RbcCalloc_def window_def drawable_def stale_def off_graph_def
  gc_requests_def segments_sent_def
  TurnOffHairs_def TurnOnHairs_def RbcConfigureCrosshairs_def RbcEnableCrosshairs_def
  RbcDisableCrosshairs_def RbcUpdateCrosshairs_def ConfigureOp_def OnOp_def OffOp_def
  ToggleOp_def Let_def

subsection \<open>No window, or an unmapped one\<close>

text \<open>
  C2, as claimed, fails: the widget command \<open>off\<close> (and likewise \<open>toggle\<close> and
  \<open>configure\<close>) on a graph whose window does not exist returns \<open>TCL_ERROR\<close>, by the
  guard at the head of \<open>OffOp\<close>.
\<close>

theorem OffOp_without_window_is_error:
  "window (plot\<lparr>win := None\<rparr>) = None
   \<and> fst (OffOp (plot\<lparr>win := None\<rparr>)) = TCL_ERROR
   \<and> fst (ToggleOp (plot\<lparr>win := None\<rparr>)) = TCL_ERROR"
  by (simp add: plot_eval)

text \<open>
  C2, amended. When the window does not exist or is not mapped, no crosshair operation
  sends an \<open>XDrawSegments\<close> request or changes \<open>visible\<close>. \<open>RbcEnableCrosshairs\<close> and
  \<open>RbcDisableCrosshairs\<close> change nothing at all. The commands \<open>on\<close>, \<open>off\<close> and \<open>toggle\<close>
  send the display nothing; \<open>on\<close> returns \<open>TCL_OK\<close>; \<open>off\<close> and \<open>toggle\<close> return
  \<open>TCL_OK\<close> when the window exists and \<open>TCL_ERROR\<close> when it does not. When the window
  does not exist, \<open>RbcConfigureCrosshairs\<close> and the commands \<open>off\<close>, \<open>toggle\<close> and
  \<open>configure\<close> leave the graph as it was, the three commands with \<open>TCL_ERROR\<close>. When
  the window exists and is unmapped, \<open>RbcConfigureCrosshairs\<close> dereferences a null
  pointer if no colour is set, and otherwise sends the display exactly its
  graphics-context calls (\<open>RbcGetPrivateGC\<close>, \<open>RbcSetDashes\<close> for a dashed line,
  \<open>RbcFreePrivateGC\<close> for a context held before), takes the new context,
  recomputes both segments and leaves \<open>hidden\<close> as it was; the command \<open>configure\<close>,
  when it returns, has sent no \<open>XDrawSegments\<close> either.
\<close>

theorem undrawable_operations:
  assumes "\<not> drawable g"
  shows "RbcEnableCrosshairs g = g
    \<and> RbcDisableCrosshairs g = g
    \<and> fst (OnOp g) = TCL_OK
    \<and> display (snd (OnOp g)) = display g
    \<and> visible (crosshairs (snd (OnOp g))) = visible (crosshairs g)
    \<and> fst (OffOp g) = (if window g = None then TCL_ERROR else TCL_OK)
    \<and> display (snd (OffOp g)) = display g
    \<and> visible (crosshairs (snd (OffOp g))) = visible (crosshairs g)
    \<and> fst (ToggleOp g) = (if window g = None then TCL_ERROR else TCL_OK)
    \<and> display (snd (ToggleOp g)) = display g
    \<and> visible (crosshairs (snd (ToggleOp g))) = visible (crosshairs g)
    \<and> (case window g of
          None \<Rightarrow>
            RbcConfigureCrosshairs h newGC g = Some g \<and> OffOp g = (TCL_ERROR, g)
            \<and> ToggleOp g = (TCL_ERROR, g)
            \<and> ConfigureOp h argc info args newGC g = Some (TCL_ERROR, g)
        | Some tkwin \<Rightarrow>
            (case colorPtr (crosshairs g) of
               None \<Rightarrow> RbcConfigureCrosshairs h newGC g = None
             | Some pixel \<Rightarrow>
                 (\<exists>g'. RbcConfigureCrosshairs h newGC g = Some g'
                   \<and> display g' =
                       display g @ gc_requests h tkwin newGC (plotBg g) (crosshairs g) pixel
                   \<and> filter is_XDrawSegments (display g') = filter is_XDrawSegments (display g)
                   \<and> visible (crosshairs g') = visible (crosshairs g)
                   \<and> hidden (crosshairs g') = hidden (crosshairs g)
                   \<and> gc (crosshairs g') = Some newGC
                   \<and> segArr (crosshairs g') =
                       (\<lparr>seg_x1 = pt_x (hotSpot (crosshairs g)), seg_y1 = word_of_int (bottom g),
                         seg_x2 = pt_x (hotSpot (crosshairs g)), seg_y2 = word_of_int (top_y g)\<rparr>,
                        \<lparr>seg_x1 = word_of_int (left g), seg_y1 = pt_y (hotSpot (crosshairs g)),
                         seg_x2 = word_of_int (right g), seg_y2 = pt_y (hotSpot (crosshairs g))\<rparr>))))
    \<and> (case ConfigureOp h argc info args newGC g of
          None \<Rightarrow> True
        | Some (code, g') \<Rightarrow>
            filter is_XDrawSegments (display g') = filter is_XDrawSegments (display g)
            \<and> visible (crosshairs g') = visible (crosshairs g))"
proof -
  have en: "RbcEnableCrosshairs g = g"
    using assms by (simp add: RbcEnableCrosshairs_def TurnOnHairs_undrawable)
  have dis: "RbcDisableCrosshairs g = g"
    using assms
    by (auto simp add: RbcDisableCrosshairs_def drawable_def TurnOffHairs_unmapped
        split: option.splits)
  have on: "fst (OnOp g) = TCL_OK \<and> display (snd (OnOp g)) = display g
      \<and> visible (crosshairs (snd (OnOp g))) = visible (crosshairs g)"
    using assms by (simp add: OnOp_def TurnOnHairs_undrawable Let_def)
  have off: "fst (OffOp g) = (if window g = None then TCL_ERROR else TCL_OK)
      \<and> display (snd (OffOp g)) = display g
      \<and> visible (crosshairs (snd (OffOp g))) = visible (crosshairs g)"
    using assms
    by (auto simp add: OffOp_def drawable_def TurnOffHairs_unmapped Let_def
        split: option.splits)
  have tog: "fst (ToggleOp g) = (if window g = None then TCL_ERROR else TCL_OK)
      \<and> display (snd (ToggleOp g)) = display g
      \<and> visible (crosshairs (snd (ToggleOp g))) = visible (crosshairs g)"
    using assms
    by (auto simp add: ToggleOp_def drawable_def TurnOffHairs_unmapped
        TurnOnHairs_undrawable Let_def split: option.splits)
  have conf: "case window g of
          None \<Rightarrow>
            RbcConfigureCrosshairs h newGC g = Some g \<and> OffOp g = (TCL_ERROR, g)
            \<and> ToggleOp g = (TCL_ERROR, g)
            \<and> ConfigureOp h argc info args newGC g = Some (TCL_ERROR, g)
        | Some tkwin \<Rightarrow>
            (case colorPtr (crosshairs g) of
               None \<Rightarrow> RbcConfigureCrosshairs h newGC g = None
             | Some pixel \<Rightarrow>
                 (\<exists>g'. RbcConfigureCrosshairs h newGC g = Some g'
                   \<and> display g' =
                       display g @ gc_requests h tkwin newGC (plotBg g) (crosshairs g) pixel
                   \<and> filter is_XDrawSegments (display g') = filter is_XDrawSegments (display g)
                   \<and> visible (crosshairs g') = visible (crosshairs g)
                   \<and> hidden (crosshairs g') = hidden (crosshairs g)
                   \<and> gc (crosshairs g') = Some newGC
                   \<and> segArr (crosshairs g') =
                       (\<lparr>seg_x1 = pt_x (hotSpot (crosshairs g)), seg_y1 = word_of_int (bottom g),
                         seg_x2 = pt_x (hotSpot (crosshairs g)), seg_y2 = word_of_int (top_y g)\<rparr>,
                        \<lparr>seg_x1 = word_of_int (left g), seg_y1 = pt_y (hotSpot (crosshairs g)),
                         seg_x2 = word_of_int (right g), seg_y2 = pt_y (hotSpot (crosshairs g))\<rparr>)))"
  proof (cases "window g")
    case None
    then show ?thesis
      by (simp add: RbcConfigureCrosshairs_def OffOp_def ToggleOp_def ConfigureOp_def)
  next
    case (Some tkwin)
    with assms have unmapped: "\<not> mapped tkwin" by (simp add: drawable_def)
    show ?thesis
    proof (cases "colorPtr (crosshairs g)")
      case None
      with Some unmapped show ?thesis
        by (simp add: RbcConfigureCrosshairs_def TurnOffHairs_unmapped Let_def)
    next
      case (Some pixel)
      with \<open>window g = Some tkwin\<close> RbcConfigureCrosshairs_unmapped
        [OF \<open>window g = Some tkwin\<close> unmapped Some, of h newGC]
      show ?thesis by simp
    qed
  qed
  have cmd: "case ConfigureOp h argc info args newGC g of
          None \<Rightarrow> True
        | Some (code, g') \<Rightarrow>
            filter is_XDrawSegments (display g') = filter is_XDrawSegments (display g)
            \<and> visible (crosshairs g') = visible (crosshairs g)"
    using ConfigureOp_undrawable [OF assms, of h argc info args newGC]
    by (auto split: option.splits)
  from en dis on off tog conf cmd show ?thesis by simp
qed

text \<open>
  The theorem at a graph without a window and at one whose window is unmapped: \<open>off\<close>
  is an error on the first, and on the second succeeds and sets \<open>hidden\<close> without
  drawing; \<open>RbcConfigureCrosshairs\<close> on the second asks for a graphics context and
  draws nothing.
\<close>

theorem undrawable_operations_witness:
  "\<not> drawable (plot\<lparr>win := None\<rparr>)
   \<and> OffOp (plot\<lparr>win := None\<rparr>) = (TCL_ERROR, plot\<lparr>win := None\<rparr>)
   \<and> fst (OnOp (plot\<lparr>win := None\<rparr>)) = TCL_OK
   \<and> \<not> drawable (stray_plot\<lparr>win := unmapped_window\<rparr>)
   \<and> fst (OffOp (stray_plot\<lparr>win := unmapped_window\<rparr>)) = TCL_OK
   \<and> display (snd (OffOp (stray_plot\<lparr>win := unmapped_window\<rparr>))) = []
   \<and> hidden (crosshairs (snd (OffOp (stray_plot\<lparr>win := unmapped_window\<rparr>))))
   \<and> map_option display (RbcConfigureCrosshairs blt_macros 3 (stray_plot\<lparr>win := unmapped_window\<rparr>)) =
       Some [RbcGetPrivateGC 7 [GCForeground, GCBackground, GCFunction, GCLineWidth]
               \<lparr>gc_function = GXxor, gc_foreground = 255, gc_background = 255,
                gc_line_width = 0, gc_line_style = None\<rparr>]"
proof -
  have a: "\<not> drawable (plot\<lparr>win := None\<rparr>)"
    by (simp add: drawable_def window_def)
  have b: "\<not> drawable (stray_plot\<lparr>win := unmapped_window\<rparr>)"
    by (simp add: drawable_def window_def unmapped_window_def)
  have c: "window (plot\<lparr>win := None\<rparr>) = None"
    and d: "window (stray_plot\<lparr>win := unmapped_window\<rparr>) \<noteq> None"
    and e: "display (stray_plot\<lparr>win := unmapped_window\<rparr>) = []"
    by (simp_all add: window_def plot_def stray_plot_def unmapped_window_def)
  have f: "hidden (crosshairs (snd (OffOp (stray_plot\<lparr>win := unmapped_window\<rparr>))))"
    by (simp add: plot_eval)
  have g: "map_option display (RbcConfigureCrosshairs blt_macros 3 (stray_plot\<lparr>win := unmapped_window\<rparr>)) =
       Some [RbcGetPrivateGC 7 [GCForeground, GCBackground, GCFunction, GCLineWidth]
               \<lparr>gc_function = GXxor, gc_foreground = 255, gc_background = 255,
                gc_line_width = 0, gc_line_style = None\<rparr>]"
    by (simp add: plot_eval)
  from a b c d e f g undrawable_operations [OF a] undrawable_operations [OF b]
  show ?thesis by simp
qed

subsection \<open>Hidden and visible\<close>

lemma RbcConfigureCrosshairs_keeps:
  assumes "RbcConfigureCrosshairs h newGC g = Some g'"
    and "\<not> (hidden (crosshairs g) \<and> stale g)"
    and "window g = None \<longrightarrow> \<not> (hidden (crosshairs g) \<and> visible (crosshairs g))"
  shows "\<not> (hidden (crosshairs g') \<and> visible (crosshairs g'))"
  using assms
  by (auto simp add: RbcConfigureCrosshairs_def stale_def TurnOffHairs_def TurnOnHairs_def
      window_def Let_def split: option.splits if_splits)

lemma ConfigureOp_keeps:
  assumes "ConfigureOp h argc info args newGC g = Some (code, g')"
    and "\<not> hides_unmapped (ConfigureCmd argc info args newGC) g"
    and "\<not> (hidden (crosshairs g) \<and> visible (crosshairs g))"
  shows "\<not> (hidden (crosshairs g') \<and> visible (crosshairs g'))"
proof (cases "window g")
  case None
  with assms(1,3) show ?thesis by (simp add: ConfigureOp_def)
next
  case (Some tkwin)
  show ?thesis
  proof (cases args)
    case ParseError
    with Some assms(1,3) show ?thesis
      by (auto simp add: ConfigureOp_def split: if_splits)
  next
    case (Parsed opts)
    let ?g = "g\<lparr>crosshairs := fold set_option opts (crosshairs g)\<rparr>"
    show ?thesis
    proof (cases "argc = 3 \<or> argc = 4")
      case True
      with Some assms(1,3) show ?thesis by (auto simp add: ConfigureOp_def)
    next
      case False
      with Some Parsed assms(1) have conf: "RbcConfigureCrosshairs h newGC ?g = Some g'"
        by (auto simp add: ConfigureOp_def split: option.splits)
      have st: "stale ?g = stale g"
        by (simp add: stale_def fold_set_option_visible)
      from False Parsed assms(2) have "\<not> (hidden (crosshairs ?g) \<and> stale ?g)"
        by (simp add: st)
      moreover from Some have "window ?g = None \<longrightarrow>
          \<not> (hidden (crosshairs ?g) \<and> visible (crosshairs ?g))"
        by simp
      ultimately show ?thesis
        using conf by (rule RbcConfigureCrosshairs_keeps [rotated])
    qed
  qed
qed

lemma exec_keeps:
  assumes "exec h c g = Some g'" and "\<not> hides_unmapped c g"
    and "\<not> (hidden (crosshairs g) \<and> visible (crosshairs g))"
  shows "\<not> (hidden (crosshairs g') \<and> visible (crosshairs g'))"
proof (cases c)
  case (Configure newGC)
  with assms(1) have "RbcConfigureCrosshairs h newGC g = Some g'" by simp
  then show ?thesis
    by (rule RbcConfigureCrosshairs_keeps) (use assms(3) in \<open>auto simp add: stale_def\<close>)
next
  case (ConfigureCmd argc info args newGC)
  with assms(1) obtain code where "ConfigureOp h argc info args newGC g = Some (code, g')"
    by (auto split: option.splits)
  then show ?thesis
    using assms(2,3) unfolding ConfigureCmd by (rule ConfigureOp_keeps)
next
  case Off
  with assms show ?thesis
    by (auto simp add: OffOp_def stale_def TurnOffHairs_def Let_def
        split: option.splits if_splits)
next
  case Toggle
  with assms show ?thesis
    by (auto simp add: ToggleOp_def stale_def TurnOffHairs_def TurnOnHairs_def window_def
        Let_def split: option.splits if_splits)
next
  case On
  with assms show ?thesis
    by (auto simp add: OnOp_def TurnOnHairs_def Let_def split: option.splits if_splits)
next
  case Enable
  with assms show ?thesis
    by (auto simp add: RbcEnableCrosshairs_def TurnOnHairs_def Let_def
        split: option.splits if_splits)
next
  case Disable
  with assms show ?thesis
    by (auto simp add: RbcDisableCrosshairs_def TurnOffHairs_def Let_def
        split: option.splits if_splits)
next
  case Update
  with assms show ?thesis
    by (auto simp add: RbcUpdateCrosshairs_def Let_def)
next
  case (WindowChange w)
  with assms show ?thesis by auto
next
  case (PlotChange l r t b)
  with assms show ?thesis by auto
qed

lemma run_keeps:
  "run h cs g = Some g' \<Longrightarrow> safe_run h cs g \<Longrightarrow>
   \<not> (hidden (crosshairs g) \<and> visible (crosshairs g)) \<Longrightarrow>
   \<not> (hidden (crosshairs g') \<and> visible (crosshairs g'))"
proof (induction cs arbitrary: g)
  case Nil
  then show ?case by simp
next
  case (Cons c cs)
  from Cons.prems(1) obtain g1 where step: "exec h c g = Some g1" and rest: "run h cs g1 = Some g'"
    by (auto split: option.splits)
  from Cons.prems(2) step have ok: "\<not> hides_unmapped c g" and safe: "safe_run h cs g1"
    by simp_all
  from step ok Cons.prems(3) have "\<not> (hidden (crosshairs g1) \<and> visible (crosshairs g1))"
    by (rule exec_keeps)
  with rest safe show ?case by (rule Cons.IH)
qed

lemma RbcCreateCrosshairs_not_visible:
  "RbcCreateCrosshairs defaults g0 = (TCL_OK, g) \<Longrightarrow> \<not> visible (crosshairs g)"
  by (cases defaults)
    (auto simp add: RbcCreateCrosshairs_def RbcCalloc_def fold_set_option_visible
      split: option.splits)

text \<open>
  C3, as claimed, fails. The crosshairs are shown on a mapped window; the window is
  unmapped; the command \<open>off\<close> then sets \<open>hidden\<close>, but \<open>TurnOffHairs\<close> erases and
  clears \<open>visible\<close> only on a mapped window: the graph is left hidden and visible.
\<close>

theorem hidden_and_visible_after_unmap:
  "RbcCreateCrosshairs (Parsed [Color 0]) plot = (TCL_OK, fresh_plot)
   \<and> map_option (\<lambda>g. (hidden (crosshairs g), visible (crosshairs g)))
        (run blt_macros unmap_then_off fresh_plot) = Some (True, True)"
  by (simp add: plot_eval)

text \<open>
  C3, amended. From the state \<open>RbcCreateCrosshairs\<close> leaves, after every sequence of
  crosshair operations, window changes and plot changes that runs to its end and in
  which the commands \<open>off\<close> and \<open>toggle\<close>, and a \<open>configure\<close> command that leaves
  \<open>-hide\<close> set, are never given while the crosshairs are marked visible on an existing,
  unmapped window, the crosshairs are not both hidden and visible.
\<close>

theorem hidden_implies_not_visible:
  assumes "RbcCreateCrosshairs defaults g0 = (TCL_OK, g)" and "safe_run h cs g"
    and "run h cs g = Some g'"
  shows "\<not> (hidden (crosshairs g') \<and> visible (crosshairs g'))"
proof -
  have "\<not> (hidden (crosshairs g) \<and> visible (crosshairs g))"
    using assms(1) by (simp add: RbcCreateCrosshairs_not_visible)
  with assms(3,2) show ?thesis by (rule run_keeps)
qed

text \<open>
  The calls of the counterexample with the window mapped again before \<open>off\<close>: the
  crosshairs end hidden and not visible.
\<close>

theorem hidden_implies_not_visible_witness:
  "RbcCreateCrosshairs (Parsed [Color 0]) plot = (TCL_OK, fresh_plot)
   \<and> safe_run blt_macros unmap_remap_off fresh_plot
   \<and> map_option (\<lambda>g. (hidden (crosshairs g), visible (crosshairs g)))
        (run blt_macros unmap_remap_off fresh_plot) = Some (True, False)
   \<and> (\<exists>g'. run blt_macros unmap_remap_off fresh_plot = Some g'
         \<and> \<not> (hidden (crosshairs g') \<and> visible (crosshairs g')))"
proof -
  have a: "RbcCreateCrosshairs (Parsed [Color 0]) plot = (TCL_OK, fresh_plot)"
    by (simp add: plot_eval)
  have b: "safe_run blt_macros unmap_remap_off fresh_plot"
    by (simp add: plot_eval)
  have c: "map_option (\<lambda>g. (hidden (crosshairs g), visible (crosshairs g)))
        (run blt_macros unmap_remap_off fresh_plot) = Some (True, False)"
    by (simp add: plot_eval)
  then obtain g' where d: "run blt_macros unmap_remap_off fresh_plot = Some g'"
    by blast
  from a b c d hidden_implies_not_visible [OF a b d] show ?thesis by blast
qed

subsection \<open>A hot spot off the plot\<close>

text \<open>
  C6. With the crosshairs not hidden, the window mapped, a colour set and the hot spot
  strictly outside the plot on any side, \<open>RbcConfigureCrosshairs\<close> returns, leaves
  \<open>visible\<close> false and sends the display nothing but the erasure of crosshairs that
  were drawn before (with the old graphics context and the old segments) and its
  graphics-context calls, none of which draws segments; \<open>TurnOnHairs\<close>, and with it
  \<open>RbcEnableCrosshairs\<close> and the command \<open>on\<close>, does nothing.
\<close>

theorem off_graph_not_drawn:
  assumes "\<not> hidden (crosshairs g)" and "window g = Some tkwin" and "mapped tkwin"
    and "colorPtr (crosshairs g) = Some pixel"
    and "sint (pt_x (hotSpot (crosshairs g))) > right g
         \<or> sint (pt_x (hotSpot (crosshairs g))) < left g
         \<or> sint (pt_y (hotSpot (crosshairs g))) > bottom g
         \<or> sint (pt_y (hotSpot (crosshairs g))) < top_y g"
  shows "(\<exists>g'. RbcConfigureCrosshairs h newGC g = Some g'
      \<and> \<not> visible (crosshairs g')
      \<and> display g' =
          display g @ (if visible (crosshairs g)
                       then [XDrawSegments (windowId tkwin) (gc (crosshairs g))
                               (fst (segArr (crosshairs g))) (snd (segArr (crosshairs g)))]
                       else [])
            @ gc_requests h tkwin newGC (plotBg g) (crosshairs g) pixel
      \<and> filter is_XDrawSegments (display g') =
          filter is_XDrawSegments (display g)
            @ (if visible (crosshairs g)
               then [XDrawSegments (windowId tkwin) (gc (crosshairs g))
                       (fst (segArr (crosshairs g))) (snd (segArr (crosshairs g)))]
               else []))
    \<and> TurnOnHairs g = g
    \<and> RbcEnableCrosshairs g = g
    \<and> OnOp g = (TCL_OK, g)"
  using assms
  by (auto simp add: TurnOffHairs_def TurnOnHairs_def RbcConfigureCrosshairs_def
      RbcEnableCrosshairs_def OnOp_def off_graph_def window_def Let_def split: option.splits)

text \<open>
  The theorem on the plot 10..200 by 10..100 with a black, not hidden record whose hot
  spot is at (0, 0): after \<open>RbcConfigureCrosshairs\<close> the display holds the request for
  a graphics context and no segments.
\<close>

theorem off_graph_not_drawn_witness:
  "\<not> hidden (crosshairs stray_plot)
   \<and> window stray_plot = Some \<lparr>windowId = 7, mapped = True, whitePixel = 255\<rparr>
   \<and> colorPtr (crosshairs stray_plot) = Some 0
   \<and> sint (pt_x (hotSpot (crosshairs stray_plot))) < left stray_plot
   \<and> (\<exists>g'. RbcConfigureCrosshairs blt_macros 3 stray_plot = Some g'
        \<and> \<not> visible (crosshairs g')
        \<and> filter is_XDrawSegments (display g') = [])
   \<and> RbcEnableCrosshairs stray_plot = stray_plot"
proof -
  have a: "\<not> hidden (crosshairs stray_plot)"
    and b: "window stray_plot = Some \<lparr>windowId = 7, mapped = True, whitePixel = 255\<rparr>"
    and c: "mapped \<lparr>windowId = 7, mapped = True, whitePixel = 255\<rparr>"
    and col: "colorPtr (crosshairs stray_plot) = Some 0"
    and d: "sint (pt_x (hotSpot (crosshairs stray_plot))) < left stray_plot"
    and e: "\<not> visible (crosshairs stray_plot)" "display stray_plot = []"
    by (simp_all add: stray_plot_def plot_def RbcCalloc_def window_def)
  from d have d':
    "sint (pt_x (hotSpot (crosshairs stray_plot))) > right stray_plot
     \<or> sint (pt_x (hotSpot (crosshairs stray_plot))) < left stray_plot
     \<or> sint (pt_y (hotSpot (crosshairs stray_plot))) > bottom stray_plot
     \<or> sint (pt_y (hotSpot (crosshairs stray_plot))) < top_y stray_plot"
    by simp
  from a b col d e off_graph_not_drawn [OF a b c col d', of blt_macros 3] show ?thesis
    by auto
qed

subsection \<open>Resizing\<close>

text \<open>
  C7. \<open>RbcUpdateCrosshairs\<close> changes four coordinates: the vertical segment runs from
  the plot's bottom to its top, the horizontal one from its left to its right, each
  stored as a \<open>short\<close>. The other four coordinates, the hot spot, \<open>visible\<close>, \<open>hidden\<close>,
  every other field of the crosshairs and of the graph are as before, and nothing is
  sent to the display.
\<close>

theorem RbcUpdateCrosshairs_frame:
  "hotSpot (crosshairs (RbcUpdateCrosshairs g)) = hotSpot (crosshairs g)
   \<and> visible (crosshairs (RbcUpdateCrosshairs g)) = visible (crosshairs g)
   \<and> hidden (crosshairs (RbcUpdateCrosshairs g)) = hidden (crosshairs g)
   \<and> dashes (crosshairs (RbcUpdateCrosshairs g)) = dashes (crosshairs g)
   \<and> lineWidth (crosshairs (RbcUpdateCrosshairs g)) = lineWidth (crosshairs g)
   \<and> colorPtr (crosshairs (RbcUpdateCrosshairs g)) = colorPtr (crosshairs g)
   \<and> gc (crosshairs (RbcUpdateCrosshairs g)) = gc (crosshairs g)
   \<and> win (RbcUpdateCrosshairs g) = win g
   \<and> display (RbcUpdateCrosshairs g) = display g
   \<and> plotBg (RbcUpdateCrosshairs g) = plotBg g
   \<and> left (RbcUpdateCrosshairs g) = left g
   \<and> right (RbcUpdateCrosshairs g) = right g
   \<and> top_y (RbcUpdateCrosshairs g) = top_y g
   \<and> bottom (RbcUpdateCrosshairs g) = bottom g
   \<and> fst (segArr (crosshairs (RbcUpdateCrosshairs g))) =
       \<lparr>seg_x1 = seg_x1 (fst (segArr (crosshairs g))), seg_y1 = word_of_int (bottom g),
        seg_x2 = seg_x2 (fst (segArr (crosshairs g))), seg_y2 = word_of_int (top_y g)\<rparr>
   \<and> snd (segArr (crosshairs (RbcUpdateCrosshairs g))) =
       \<lparr>seg_x1 = word_of_int (left g), seg_y1 = seg_y1 (snd (segArr (crosshairs g))),
        seg_x2 = word_of_int (right g), seg_y2 = seg_y2 (snd (segArr (crosshairs g)))\<rparr>"
  by (simp add: RbcUpdateCrosshairs_def Let_def)

subsection \<open>Enabling twice\<close>

text \<open>
  C8, as claimed, fails: after the command \<open>on\<close> on a new graph the crosshairs are not
  hidden, yet two calls of \<open>RbcEnableCrosshairs\<close> draw nothing, the hot spot (-1, -1)
  being off the plot.
\<close>

theorem RbcEnableCrosshairs_off_graph_draws_nothing:
  "\<not> hidden (crosshairs (snd (OnOp fresh_plot)))
   \<and> display (snd (OnOp fresh_plot)) = []
   \<and> display (RbcEnableCrosshairs (RbcEnableCrosshairs (snd (OnOp fresh_plot)))) = []"
  by (simp add: plot_eval)

text \<open>
  C8, amended. Calling \<open>RbcEnableCrosshairs\<close> twice leaves the same graph, display
  included, as calling it once; the two calls together send one request to the display
  when the crosshairs are not hidden, the window exists and is mapped, the crosshairs
  are not yet visible and the hot spot is on the plot, and none otherwise.
\<close>

theorem RbcEnableCrosshairs_idempotent:
  "RbcEnableCrosshairs (RbcEnableCrosshairs g) = RbcEnableCrosshairs g
   \<and> length (display (RbcEnableCrosshairs (RbcEnableCrosshairs g))) =
       length (display g) +
       (if \<not> hidden (crosshairs g) \<and> drawable g \<and> \<not> visible (crosshairs g) \<and> \<not> off_graph g
        then 1 else 0)"
  by (auto simp add: TurnOnHairs_def RbcEnableCrosshairs_def drawable_def off_graph_def
      window_def Let_def split: option.splits)

text \<open>The theorem with the hot spot at (50, 50) on the plot: one request in all.\<close>

theorem RbcEnableCrosshairs_idempotent_witness:
  "RbcEnableCrosshairs (RbcEnableCrosshairs aimed_plot) = RbcEnableCrosshairs aimed_plot
   \<and> length (display (RbcEnableCrosshairs (RbcEnableCrosshairs aimed_plot))) = 1"
  using RbcEnableCrosshairs_idempotent [of aimed_plot]
  by (simp add: plot_eval)

subsection \<open>Parity of drawing\<close>

lemma TurnOnHairs_in_step: "in_step g \<Longrightarrow> in_step (TurnOnHairs g)"
  by (auto simp add: in_step_def segments_sent_def TurnOnHairs_def Let_def split: option.splits)

lemma TurnOffHairs_in_step: "in_step g \<Longrightarrow> in_step (TurnOffHairs tkwin g)"
  by (auto simp add: in_step_def segments_sent_def TurnOffHairs_def Let_def)

lemma in_step_crosshairs:
  "visible chPtr = visible (crosshairs g) \<Longrightarrow> in_step (g\<lparr>crosshairs := chPtr\<rparr>) = in_step g"
  by (simp add: in_step_def segments_sent_def)

lemma in_step_gc_requests:
  "visible chPtr = visible (crosshairs g) \<Longrightarrow>
   in_step (g\<lparr>display := display g @ gc_requests h tkwin newGC bg ch pixel, crosshairs := chPtr\<rparr>)
     = in_step g"
  by (simp add: in_step_def segments_sent_def)

lemma RbcConfigureCrosshairs_in_step:
  "in_step g \<Longrightarrow> RbcConfigureCrosshairs h newGC g = Some g' \<Longrightarrow> in_step g'"
  by (auto simp add: RbcConfigureCrosshairs_def Let_def in_step_gc_requests
      intro!: TurnOnHairs_in_step TurnOffHairs_in_step split: option.splits if_splits)

lemma exec_in_step: "in_step g \<Longrightarrow> exec h c g = Some g' \<Longrightarrow> in_step g'"
proof (cases c)
  case (ConfigureCmd argc info args newGC)
  assume "in_step g" and "exec h c g = Some g'"
  then show ?thesis
    unfolding ConfigureCmd
    by (cases args)
      (auto simp add: ConfigureOp_def in_step_crosshairs fold_set_option_visible
        dest!: RbcConfigureCrosshairs_in_step [rotated] split: option.splits if_splits)
qed (auto simp add: RbcEnableCrosshairs_def
    RbcDisableCrosshairs_def RbcUpdateCrosshairs_def OnOp_def OffOp_def ToggleOp_def Let_def
    in_step_crosshairs TurnOnHairs_in_step TurnOffHairs_in_step
    dest: RbcConfigureCrosshairs_in_step split: option.splits,
    simp_all add: in_step_def segments_sent_def)

text \<open>
  X1. Every \<open>XDrawSegments\<close> request sent to the display flips \<open>visible\<close>, and \<open>visible\<close>
  changes in no other way: if \<open>visible\<close> agrees with the parity of the number of
  \<open>XDrawSegments\<close> requests before a sequence of calls that runs to its end, it agrees
  with it after.
\<close>

theorem draw_parity:
  assumes "odd (segments_sent g) = visible (crosshairs g)" and "run h cs g = Some g'"
  shows "odd (segments_sent g') = visible (crosshairs g')"
proof -
  have "in_step g \<Longrightarrow> run h cs g = Some g' \<Longrightarrow> in_step g'"
  proof (induction cs arbitrary: g)
    case Nil
    then show ?case by simp
  next
    case (Cons c cs)
    from Cons.prems(2) obtain g1 where step: "exec h c g = Some g1"
      and rest: "run h cs g1 = Some g'"
      by (auto split: option.splits)
    from Cons.prems(1) step have "in_step g1" by (rule exec_in_step)
    then show ?case using rest by (rule Cons.IH)
  qed
  with assms show ?thesis by (simp add: in_step_def)
qed

text \<open>Shown and turned off again, the new graph has received two segment requests and is not visible.\<close>

theorem draw_parity_witness:
  "odd (segments_sent fresh_plot) = visible (crosshairs fresh_plot)
   \<and> map_option segments_sent (run blt_macros show_then_off fresh_plot) = Some 2
   \<and> (\<exists>g'. run blt_macros show_then_off fresh_plot = Some g'
        \<and> odd (segments_sent g') = visible (crosshairs g'))"
proof -
  have a: "odd (segments_sent fresh_plot) = visible (crosshairs fresh_plot)"
    by (simp add: plot_eval)
  have b: "map_option segments_sent (run blt_macros show_then_off fresh_plot) = Some 2"
    by (simp add: plot_eval)
  then obtain g' where c: "run blt_macros show_then_off fresh_plot = Some g'"
    by blast
  from a b c draw_parity [OF a c] show ?thesis by blast
qed

text \<open>
  X5. The condition of the amended C3 excludes nothing more than it must: a call that
  hides stale crosshairs, when it returns, leaves them hidden and visible.
\<close>

theorem hides_unmapped_breaks:
  assumes "hides_unmapped c g" and "exec h c g = Some g'"
    and "\<not> (hidden (crosshairs g) \<and> visible (crosshairs g))"
  shows "hidden (crosshairs g') \<and> visible (crosshairs g')"
proof (cases c)
  case (ConfigureCmd argc info args newGC)
  with assms(1) obtain opts where args: "args = Parsed opts" by (cases args) simp_all
  from assms ConfigureCmd args show ?thesis
    by (auto simp add: ConfigureOp_def RbcConfigureCrosshairs_def stale_def TurnOffHairs_def
        fold_set_option_visible Let_def split: option.splits if_splits)
qed (use assms in \<open>auto simp add: OffOp_def ToggleOp_def stale_def TurnOffHairs_def Let_def
    split: option.splits if_splits\<close>)

text \<open>The command \<open>off\<close> of the counterexample, given after the unmapping.\<close>

theorem hides_unmapped_breaks_witness:
  "hides_unmapped Off (aimed_plot\<lparr>win := unmapped_window, crosshairs := (crosshairs aimed_plot)\<lparr>visible := True\<rparr>\<rparr>)
   \<and> (\<exists>g'. exec blt_macros Off
          (aimed_plot\<lparr>win := unmapped_window, crosshairs := (crosshairs aimed_plot)\<lparr>visible := True\<rparr>\<rparr>) = Some g'
        \<and> hidden (crosshairs g') \<and> visible (crosshairs g'))"
proof -
  let ?g = "aimed_plot\<lparr>win := unmapped_window, crosshairs := (crosshairs aimed_plot)\<lparr>visible := True\<rparr>\<rparr>"
  have a: "hides_unmapped Off ?g"
    by (simp add: plot_eval)
  have b: "exec blt_macros Off ?g = Some (snd (OffOp ?g))"
    by simp
  have c: "\<not> (hidden (crosshairs ?g) \<and> visible (crosshairs ?g))"
    by (simp add: plot_eval)
  from a b hides_unmapped_breaks [OF a b c] show ?thesis by blast
qed

section \<open>Properties of printing\<close>

subsection \<open>Auxiliary facts\<close>

declare print_pages.simps [simp del]

lemma length_newlines: "length (newlines k) = k"
  by (simp add: newlines_def)

lemma take_newlines: "take j (newlines k) = newlines (min j k)"
  by (simp add: newlines_def)

lemma drop_newlines: "drop j (newlines k) = newlines (k - j)"
  by (simp add: newlines_def)

lemma r_bottom_letter: "r_bottom letter_printer = 6580"
  by (simp add: r_bottom_def text_rect_def letter_printer_def letter_caps_def Let_def)

lemma letter_printer_returns:
  "StartDoc letter_printer = 1"
  "StartPage letter_printer n = 1"
  "EndPage letter_printer n = 1"
  "DrawText letter_printer s = 100 * int (length s)"
  "DrawText_CALCRECT letter_printer s = 100 * int (length s)"
  "PrintDlg letter_printer"
  "hDC letter_printer"
  "tmAveCharWidth letter_printer = 60"
  "tmHeight letter_printer + tmExternalLeading letter_printer = 100"
  "GetDeviceCaps letter_printer VERTRES = 6600"
  by (simp_all add: letter_printer_def letter_caps_def)

lemma fit_text_letter:
  "fit_text letter_printer (newlines k) (int k) =
     (if k = 0 then (0, [])
      else (if 100 * int k < 6580 then int k else if k = 1 then 1 else int k div 2,
            [CalcRect_call (newlines k) (100 * int k)]))"
  by (auto simp add: fit_text_def r_bottom_letter c_div_def Let_def take_newlines
      length_newlines letter_printer_returns)

lemma letter_print_job:
  "WinTextPrint letter_printer [''::tk::print::_printtext'', newlines 200] =
     Some \<lparr>result = TCL_OK, interp_result = [],
       calls = [PrintDlg_call True, Acquire PrinterDC, StartDoc_call 1,
         StartPage_call 1, CalcRect_call (newlines 200) 20000,
         DrawText_call (newlines 100) 10000, EndPage_call 1,
         StartPage_call 1, CalcRect_call (newlines 100) 10000,
         DrawText_call (newlines 50) 5000, EndPage_call 1,
         StartPage_call 1, CalcRect_call (newlines 50) 5000,
         DrawText_call (newlines 50) 5000, EndPage_call 1,
         EndDoc_call, Release PrinterDC]\<rparr>"
proof -
  note sel = letter_printer_returns
  have f200: "fit_text letter_printer (newlines 200) 200 = (100, [CalcRect_call (newlines 200) 20000])"
    using fit_text_letter [of 200] by simp
  have f100: "fit_text letter_printer (newlines 100) 100 = (50, [CalcRect_call (newlines 100) 10000])"
    using fit_text_letter [of 100] by simp
  have f50: "fit_text letter_printer (newlines 50) 50 = (50, [CalcRect_call (newlines 50) 5000])"
    using fit_text_letter [of 50] by simp
  have p3: "print_pages letter_printer (newlines 200) n 1 200 =
      \<lparr>result = TCL_OK, interp_result = [], calls = [EndDoc_call, Release PrinterDC]\<rparr>" for n
    by (subst print_pages.simps) (simp add: length_newlines)
  have p2: "print_pages letter_printer (newlines 200) n 1 150 =
      \<lparr>result = TCL_OK, interp_result = [],
       calls = [StartPage_call 1, CalcRect_call (newlines 50) 5000,
         DrawText_call (newlines 50) 5000, EndPage_call 1, EndDoc_call, Release PrinterDC]\<rparr>" for n
    by (subst print_pages.simps)
      (simp add: length_newlines drop_newlines take_newlines f50 sel p3 prepend_def Let_def)
  have p1: "print_pages letter_printer (newlines 200) n 1 100 =
      \<lparr>result = TCL_OK, interp_result = [],
       calls = [StartPage_call 1, CalcRect_call (newlines 100) 10000,
         DrawText_call (newlines 50) 5000, EndPage_call 1,
         StartPage_call 1, CalcRect_call (newlines 50) 5000,
         DrawText_call (newlines 50) 5000, EndPage_call 1, EndDoc_call, Release PrinterDC]\<rparr>" for n
    by (subst print_pages.simps)
      (simp add: length_newlines drop_newlines take_newlines f100 sel p2 prepend_def Let_def)
  have p0: "print_pages letter_printer (newlines 200) n 1 0 =
      \<lparr>result = TCL_OK, interp_result = [],
       calls = [StartPage_call 1, CalcRect_call (newlines 200) 20000,
         DrawText_call (newlines 100) 10000, EndPage_call 1,
         StartPage_call 1, CalcRect_call (newlines 100) 10000,
         DrawText_call (newlines 50) 5000, EndPage_call 1,
         StartPage_call 1, CalcRect_call (newlines 50) 5000,
         DrawText_call (newlines 50) 5000, EndPage_call 1, EndDoc_call, Release PrinterDC]\<rparr>" for n
    by (subst print_pages.simps)
      (simp add: length_newlines drop_newlines take_newlines f200 sel p1 prepend_def Let_def)
  show ?thesis
    by (simp add: WinTextPrint_def sel p0 prepend_def c_div_def Let_def)
qed

lemma sound_prepend:
  "\<forall>c \<in> set cs. \<not> failed c \<Longrightarrow> sound out \<Longrightarrow> sound (prepend cs out)"
  unfolding sound_def prepend_def
  apply (elim disjE)
   apply (rule disjI1)
   apply auto[1]
  apply (rule disjI2)
  apply (elim exE conjE)
  subgoal for pre c
    by (rule exI [of _ "cs @ pre"], rule exI [of _ c]) auto
  done

lemma fit_text_calls_ok: "\<forall>c \<in> set (snd (fit_text pr begin_text remaining)). \<not> failed c"
  by (simp add: fit_text_def Let_def)

lemma sound_failed_last:
  assumes "sound out" and "calls out = pre @ c # post" and "failed c"
  shows "post = [] \<and> result out = TCL_ERROR \<and> interp_result out = complaint c"
proof -
  from assms(2,3) have "\<not> (\<forall>x \<in> set (calls out). \<not> failed x)" by auto
  with assms(1) obtain pre' c' where last: "calls out = pre' @ [c']"
    and clean: "\<forall>x \<in> set pre'. \<not> failed x"
    and res: "result out = TCL_ERROR" "interp_result out = complaint c'"
    unfolding sound_def by blast
  from last assms(2) have eq: "pre @ c # post = pre' @ [c']" by simp
  show ?thesis
  proof (cases post rule: rev_cases)
    case Nil
    with eq have "c = c'" by simp
    with Nil res show ?thesis by simp
  next
    case (snoc ys y)
    with eq have "pre @ c # ys = pre'" by simp
    then have "c \<in> set pre'" by auto
    with clean assms(3) show ?thesis by blast
  qed
qed

lemma sound_error_message: "sound out \<Longrightarrow> result out = TCL_ERROR \<Longrightarrow> interp_result out \<noteq> []"
  unfolding sound_def
  by (elim disjE exE conjE) (simp, case_tac c, simp_all)

lemma print_pages_sound: "sound (print_pages pr data n outp text_done)"
proof (induction pr data n outp text_done rule: print_pages.induct)
  case (1 pr data n outp text_done)
  show ?case
  proof (cases "outp \<ge> 0 \<and> text_done < int (length data)")
    case False
    then show ?thesis
      by (subst print_pages.simps) (auto simp add: sound_def Let_def)
  next
    case loop: True
    define started where "started = StartPage pr n"
    define begin_text where "begin_text = drop (nat text_done) data"
    define fitted where "fitted = fit_text pr begin_text (int (length data) - text_done)"
    define textcount where "textcount = fst fitted"
    define drawn where "drawn = DrawText pr (take (nat textcount) begin_text)"
    define ended where "ended = EndPage pr n"
    have measured: "\<forall>c \<in> set (snd fitted). \<not> failed c"
      by (simp add: fitted_def fit_text_calls_ok)
    show ?thesis
    proof (cases "started = 0")
      case True
      with loop show ?thesis
        by (subst print_pages.simps)
          (simp add: sound_def Let_def started_def [symmetric])
    next
      case s: False
      show ?thesis
      proof (cases "drawn = 0")
        case True
        have "sound \<lparr>result = TCL_ERROR, interp_result = ''unable to draw text'',
                  calls = ([StartPage_call started] @ snd fitted)
                    @ [DrawText_call (take (nat textcount) begin_text) drawn]\<rparr>"
          unfolding sound_def using True s measured
          by (intro disjI2 exI [of _ "[StartPage_call started] @ snd fitted"]
              exI [of _ "DrawText_call (take (nat textcount) begin_text) drawn"]) simp
        with loop s True show ?thesis
          by (subst print_pages.simps)
            (simp add: Let_def started_def [symmetric] begin_text_def [symmetric]
              fitted_def [symmetric] textcount_def [symmetric] drawn_def [symmetric])
      next
        case d: False
        show ?thesis
        proof (cases "ended = 0")
          case True
          have "sound \<lparr>result = TCL_ERROR, interp_result = ''unable to end page'',
                  calls = ([StartPage_call started] @ snd fitted
                    @ [DrawText_call (take (nat textcount) begin_text) drawn])
                    @ [EndPage_call ended]\<rparr>"
            unfolding sound_def using True s d measured
            by (intro disjI2 exI [of _ "[StartPage_call started] @ snd fitted
                    @ [DrawText_call (take (nat textcount) begin_text) drawn]"]
                exI [of _ "EndPage_call ended"]) simp
          with loop s d True show ?thesis
            by (subst print_pages.simps)
              (simp add: Let_def started_def [symmetric] begin_text_def [symmetric]
                fitted_def [symmetric] textcount_def [symmetric] drawn_def [symmetric]
                ended_def [symmetric])
        next
          case e: False
          have ih: "sound (print_pages pr data (Suc n) ended (text_done + textcount))"
            using "1.IH" [OF refl loop refl s [unfolded started_def] refl refl refl refl
                d [unfolded drawn_def textcount_def fitted_def begin_text_def] refl
                e [unfolded ended_def]]
            by (simp add: ended_def textcount_def fitted_def begin_text_def)
          have "sound (prepend ([StartPage_call started] @ snd fitted
                       @ [DrawText_call (take (nat textcount) begin_text) drawn,
                          EndPage_call ended])
                (print_pages pr data (Suc n) ended (text_done + textcount)))"
            using s d e measured by (intro sound_prepend ih) simp
          with loop s d e show ?thesis
            by (subst print_pages.simps)
              (simp add: Let_def started_def [symmetric] begin_text_def [symmetric]
                fitted_def [symmetric] textcount_def [symmetric] drawn_def [symmetric]
                ended_def [symmetric])
        qed
      qed
    qed
  qed
qed

lemma WinTextPrint_sound: "WinTextPrint pr objv = Some out \<Longrightarrow> sound out"
proof -
  assume run: "WinTextPrint pr objv = Some out"
  have start: "sound (prepend [PrintDlg_call True, Acquire PrinterDC, StartDoc_call v]
      (print_pages pr data 0 v 0))" if "v \<noteq> 0" for v data
    using that by (intro sound_prepend print_pages_sound) simp
  have stop: "sound \<lparr>result = TCL_ERROR, interp_result = ''unable to start document'',
      calls = [PrintDlg_call True, Acquire PrinterDC] @ [StartDoc_call 0]\<rparr>"
    unfolding sound_def
    by (intro disjI2 exI [of _ "[PrintDlg_call True, Acquire PrinterDC]"]
        exI [of _ "StartDoc_call 0"]) simp
  from run show ?thesis
    using start stop
    by (auto simp add: WinTextPrint_def Let_def Tcl_WrongNumArgs_def
        split: list.splits if_splits)
      (simp_all add: sound_def)
qed

subsection \<open>Text: what goes on a page\<close>

text \<open>
  C1 does not hold of the code: the search loop ends in an unconditional \<open>break\<close> and
  makes one measurement. A text of 200 newlines on a printer whose lines are 100 units
  high and whose page rectangle ends at 6580 is measured 20000 units high; the first
  page is then given the first 100 characters, 10000 units high, although 65 characters
  (6500 units) are the most that end above 6580.
\<close>

theorem WinTextPrint_page_overflows:
  "WinTextPrint letter_printer [''::tk::print::_printtext'', newlines 200] =
     Some \<lparr>result = TCL_OK, interp_result = [],
       calls = [PrintDlg_call True, Acquire PrinterDC, StartDoc_call 1,
         StartPage_call 1, CalcRect_call (newlines 200) 20000,
         DrawText_call (newlines 100) 10000, EndPage_call 1,
         StartPage_call 1, CalcRect_call (newlines 100) 10000,
         DrawText_call (newlines 50) 5000, EndPage_call 1,
         StartPage_call 1, CalcRect_call (newlines 50) 5000,
         DrawText_call (newlines 50) 5000, EndPage_call 1,
         EndDoc_call, Release PrinterDC]\<rparr>
   \<and> r_bottom letter_printer = 6580
   \<and> DrawText_CALCRECT letter_printer (newlines 100) = 10000
   \<and> DrawText_CALCRECT letter_printer (newlines 65) = 6500
   \<and> DrawText_CALCRECT letter_printer (newlines 66) = 6600"
  by (simp add: letter_print_job r_bottom_letter letter_printer_returns length_newlines)

subsection \<open>Text: failures\<close>

text \<open>
  C9 does not hold of the code. \<open>WinTextPrint\<close> tests the values returned by
  \<open>StartDoc\<close>, \<open>StartPage\<close> and \<open>EndPage\<close> against 0 only, and has no branch for a print
  dialog that does not return \<open>TRUE\<close>. When the dialog fails, the function returns
  \<open>TCL_OK\<close> and leaves no message. When \<open>StartDoc\<close> returns -1, the loop's guard
  \<open>output >= 0\<close> skips the pages and the function ends the document and returns
  \<open>TCL_OK\<close>. When \<open>StartPage\<close> returns -1, the page is measured, drawn and ended all
  the same, and the function returns \<open>TCL_OK\<close>.
\<close>

theorem WinTextPrint_silent_failures:
  "\<not> PrintDlg (letter_printer\<lparr>PrintDlg := False\<rparr>)
   \<and> WinTextPrint (letter_printer\<lparr>PrintDlg := False\<rparr>) [''::tk::print::_printtext'', ''hello''] =
       Some \<lparr>result = TCL_OK, interp_result = [], calls = [PrintDlg_call False]\<rparr>
   \<and> WinTextPrint (letter_printer\<lparr>StartDoc := - 1\<rparr>) [''::tk::print::_printtext'', ''hello''] =
       Some \<lparr>result = TCL_OK, interp_result = [],
         calls = [PrintDlg_call True, Acquire PrinterDC, StartDoc_call (- 1),
                  EndDoc_call, Release PrinterDC]\<rparr>
   \<and> WinTextPrint (letter_printer\<lparr>StartPage := (\<lambda>n. - 1)\<rparr>) [''::tk::print::_printtext'', ''hello''] =
       Some \<lparr>result = TCL_OK, interp_result = [],
         calls = [PrintDlg_call True, Acquire PrinterDC, StartDoc_call 1,
                  StartPage_call (- 1), CalcRect_call ''hello'' 500, DrawText_call ''hello'' 500,
                  EndPage_call 1, EndDoc_call, Release PrinterDC]\<rparr>"
proof -
  have doc: "print_pages (letter_printer\<lparr>StartDoc := - 1\<rparr>) ''hello'' 0 (- 1) 0 =
      \<lparr>result = TCL_OK, interp_result = [], calls = [EndDoc_call, Release PrinterDC]\<rparr>"
    by (subst print_pages.simps) simp
  have bottom: "r_bottom (letter_printer\<lparr>StartPage := (\<lambda>n. - 1)\<rparr>) = 6580"
    by (simp add: r_bottom_def text_rect_def letter_printer_def letter_caps_def Let_def)
  have fit: "fit_text (letter_printer\<lparr>StartPage := (\<lambda>n. - 1)\<rparr>) ''hello'' 5 =
      (5, [CalcRect_call ''hello'' 500])"
    by (simp add: fit_text_def bottom letter_printer_returns Let_def)
  have last: "print_pages (letter_printer\<lparr>StartPage := (\<lambda>n. - 1)\<rparr>) ''hello'' n 1 5 =
      \<lparr>result = TCL_OK, interp_result = [], calls = [EndDoc_call, Release PrinterDC]\<rparr>" for n
    by (subst print_pages.simps) simp
  have page: "print_pages (letter_printer\<lparr>StartPage := (\<lambda>n. - 1)\<rparr>) ''hello'' 0 1 0 =
      \<lparr>result = TCL_OK, interp_result = [],
       calls = [StartPage_call (- 1), CalcRect_call ''hello'' 500, DrawText_call ''hello'' 500,
                EndPage_call 1, EndDoc_call, Release PrinterDC]\<rparr>"
    by (subst print_pages.simps)
      (simp add: fit last prepend_def letter_printer_returns Let_def)
  from doc page show ?thesis
    by (simp add: WinTextPrint_def prepend_def c_div_def Let_def letter_printer_returns)
qed

text \<open>
  X6. Whenever \<open>WinTextPrint\<close> returns: a dialog that returned \<open>TRUE\<close> without
  a device context gives \<open>TCL_ERROR\<close> with the message "can't allocate printer DC" and
  nothing is printed; a call of \<open>StartDoc\<close>, \<open>StartPage\<close>, the drawing \<open>DrawText\<close> or
  \<open>EndPage\<close> that returns 0 is the last call made, and the result is \<open>TCL_ERROR\<close> with
  that call's message; every \<open>TCL_ERROR\<close> carries a message.
\<close>

theorem WinTextPrint_failure_aborts:
  assumes "WinTextPrint pr objv = Some out"
  shows "(objv = [cmd, data] \<and> PrintDlg pr \<and> \<not> hDC pr \<longrightarrow>
            out = \<lparr>result = TCL_ERROR, interp_result = ''can't allocate printer DC'',
                   calls = [PrintDlg_call True]\<rparr>)
    \<and> (calls out = pre @ c # post \<and> failed c \<longrightarrow>
          post = [] \<and> result out = TCL_ERROR \<and> interp_result out = complaint c)
    \<and> (result out = TCL_ERROR \<longrightarrow> interp_result out \<noteq> [])"
proof -
  have s: "sound out"
    using assms by (rule WinTextPrint_sound)
  have a: "objv = [cmd, data] \<and> PrintDlg pr \<and> \<not> hDC pr \<longrightarrow>
      out = \<lparr>result = TCL_ERROR, interp_result = ''can't allocate printer DC'',
             calls = [PrintDlg_call True]\<rparr>"
    using assms by (auto simp add: WinTextPrint_def)
  have b: "calls out = pre @ c # post \<and> failed c \<longrightarrow>
      post = [] \<and> result out = TCL_ERROR \<and> interp_result out = complaint c"
    using sound_failed_last [OF s] by blast
  have c: "result out = TCL_ERROR \<longrightarrow> interp_result out \<noteq> []"
    using sound_error_message [OF s] by blast
  from a b c show ?thesis by blast
qed

text \<open>
  The theorem on a printer whose first \<open>StartPage\<close> returns 0: the job stops there with
  "unable to start page".
\<close>

theorem WinTextPrint_failure_aborts_witness:
  "WinTextPrint (letter_printer\<lparr>StartPage := (\<lambda>n. 0)\<rparr>) [''::tk::print::_printtext'', ''hello''] =
     Some \<lparr>result = TCL_ERROR, interp_result = ''unable to start page'',
           calls = [PrintDlg_call True, Acquire PrinterDC, StartDoc_call 1] @ StartPage_call 0 # []\<rparr>
   \<and> failed (StartPage_call 0)
   \<and> complaint (StartPage_call 0) = ''unable to start page''"
proof -
  have p: "print_pages (letter_printer\<lparr>StartPage := (\<lambda>n. 0)\<rparr>) ''hello'' 0 1 0 =
      \<lparr>result = TCL_ERROR, interp_result = ''unable to start page'', calls = [StartPage_call 0]\<rparr>"
    by (subst print_pages.simps) (simp add: Let_def)
  have run: "WinTextPrint (letter_printer\<lparr>StartPage := (\<lambda>n. 0)\<rparr>)
      [''::tk::print::_printtext'', ''hello''] =
      Some \<lparr>result = TCL_ERROR, interp_result = ''unable to start page'',
            calls = [PrintDlg_call True, Acquire PrinterDC, StartDoc_call 1] @ StartPage_call 0 # []\<rparr>"
    by (simp add: WinTextPrint_def p prepend_def c_div_def Let_def letter_printer_returns)
  from run WinTextPrint_failure_aborts [OF run,
      of "''::tk::print::_printtext''" "''hello''"
        "[PrintDlg_call True, Acquire PrinterDC, StartDoc_call 1]" "StartPage_call 0" "[]"]
  show ?thesis by simp
qed

subsection \<open>Text: the empty text\<close>

text \<open>
  C10. For the empty text, when the dialog returns \<open>TRUE\<close> with a device context, the
  font metrics make the function's divisions defined and \<open>StartDoc\<close> does not return
  0, \<open>WinTextPrint\<close> starts the document, starts no page, measures and draws nothing,
  ends the document, deletes the device context and returns \<open>TCL_OK\<close>.
\<close>

theorem WinTextPrint_empty_text:
  assumes "PrintDlg pr" and "hDC pr" and "StartDoc pr \<noteq> 0"
    and "tmAveCharWidth pr \<noteq> 0" and "tmHeight pr + tmExternalLeading pr \<noteq> 0"
    and "c_div (GetDeviceCaps pr VERTRES) (tmHeight pr + tmExternalLeading pr) \<noteq> 0"
  shows "WinTextPrint pr [cmd, []] =
    Some \<lparr>result = TCL_OK, interp_result = [],
      calls = [PrintDlg_call True, Acquire PrinterDC, StartDoc_call (StartDoc pr),
               EndDoc_call, Release PrinterDC]\<rparr>"
proof -
  have "print_pages pr [] 0 (StartDoc pr) 0 =
      \<lparr>result = TCL_OK, interp_result = [], calls = [EndDoc_call, Release PrinterDC]\<rparr>"
    by (subst print_pages.simps) simp
  with assms show ?thesis
    by (simp add: WinTextPrint_def prepend_def Let_def)
qed

text \<open>The theorem on the 600 dpi printer.\<close>

theorem WinTextPrint_empty_text_witness:
  "PrintDlg letter_printer \<and> hDC letter_printer \<and> StartDoc letter_printer = 1
   \<and> tmAveCharWidth letter_printer = 60
   \<and> tmHeight letter_printer + tmExternalLeading letter_printer = 100
   \<and> c_div (GetDeviceCaps letter_printer VERTRES)
        (tmHeight letter_printer + tmExternalLeading letter_printer) = 66
   \<and> WinTextPrint letter_printer [''::tk::print::_printtext'', []] =
       Some \<lparr>result = TCL_OK, interp_result = [],
         calls = [PrintDlg_call True, Acquire PrinterDC, StartDoc_call 1,
                  EndDoc_call, Release PrinterDC]\<rparr>"
proof -
  have a: "PrintDlg letter_printer" and b: "hDC letter_printer"
    and c: "StartDoc letter_printer \<noteq> 0" and d: "tmAveCharWidth letter_printer \<noteq> 0"
    and e: "tmHeight letter_printer + tmExternalLeading letter_printer \<noteq> 0"
    by (simp_all add: letter_printer_returns)
  have f: "c_div (GetDeviceCaps letter_printer VERTRES)
      (tmHeight letter_printer + tmExternalLeading letter_printer) = 66"
    by (simp add: letter_printer_returns c_div_def)
  then have f': "c_div (GetDeviceCaps letter_printer VERTRES)
      (tmHeight letter_printer + tmExternalLeading letter_printer) \<noteq> 0"
    by simp
  from f WinTextPrint_empty_text [OF a b c d e f', of "''::tk::print::_printtext''"]
  show ?thesis by (simp add: letter_printer_returns)
qed

subsection \<open>Canvas: handles left behind\<close>

text \<open>
  C4 does not hold of the code. When the print dialog does not return \<open>TRUE\<close>,
  \<open>WinCanvasPrint\<close> returns \<open>TCL_ERROR\<close> without passing the label \<open>done\<close>: the window's
  device context, the bitmap and the memory device context are never released. When
  \<open>StartDoc\<close> fails, the jump to \<open>done\<close> skips \<open>DeleteDC(printDC)\<close>: the printer's device
  context is never released.
\<close>

theorem WinCanvasPrint_leaks:
  "result (WinCanvasPrint plain_screen (letter_printer\<lparr>PrintDlg := False\<rparr>)
        [''::tk::print::_printcanvas'', ''.c'']) = TCL_ERROR
   \<and> leaked (calls (WinCanvasPrint plain_screen (letter_printer\<lparr>PrintDlg := False\<rparr>)
        [''::tk::print::_printcanvas'', ''.c''])) = [WindowDC, DIBitmap, MemoryDC]
   \<and> result (WinCanvasPrint plain_screen (letter_printer\<lparr>StartDoc := - 1\<rparr>)
        [''::tk::print::_printcanvas'', ''.c'']) = TCL_ERROR
   \<and> leaked (calls (WinCanvasPrint plain_screen (letter_printer\<lparr>StartDoc := - 1\<rparr>)
        [''::tk::print::_printcanvas'', ''.c''])) = [PrinterDC]
   \<and> leaked (calls (WinCanvasPrint plain_screen letter_printer
        [''::tk::print::_printcanvas'', ''.c''])) = []"
  by (simp add: WinCanvasPrint_def WinGetSystemPalette_def plain_screen_def letter_printer_def
      leaked_def Let_def)

subsection \<open>Canvas: the size of the printed image\<close>






subsection \<open>Canvas: which handles stay\<close>

text \<open>
  X2. Which handles \<open>WinCanvasPrint\<close> leaves behind, for every window and printer: none
  when the window is not found or the copy fails, none when the dialog returns \<open>TRUE\<close>
  and the job runs through or no device context came back, the printer's device
  context when \<open>StartDoc\<close> or \<open>StartPage\<close> fails, and everything acquired on the screen
  side when the dialog does not return \<open>TRUE\<close>.
\<close>

theorem WinCanvasPrint_leaked:
  "leaked (calls (WinCanvasPrint sc pr (cmd # path # rest))) =
     (if found sc \<and> BitBlt sc \<and> GetObject sc then
        if PrintDlg pr then
          if hDC pr \<and> (StartDoc pr \<le> 0 \<or> StartPage pr 0 \<le> 0) then [PrinterDC] else []
        else [WindowDC, DIBitmap, MemoryDC]
          @ (if RC_PALETTE sc \<and> CreatePalette sc then [Palette] else [])
      else [])"
  by (simp add: WinCanvasPrint_def WinGetSystemPalette_def leaked_def Let_def)

subsection \<open>Text: the single step of the search\<close>

text \<open>
  X3. What the search loop computes for a non-empty remainder: all of it when it
  measures strictly less than \<open>r.bottom\<close>, else one character when one remains, else
  half of it, rounded down; with exactly one measuring call.
\<close>

theorem fit_text_single_step:
  assumes "0 < remaining"
  shows "fit_text pr begin_text remaining =
     (if DrawText_CALCRECT pr (take (nat remaining) begin_text) < r_bottom pr then remaining
      else if remaining = 1 then 1 else remaining div 2,
      [CalcRect_call (take (nat remaining) begin_text)
         (DrawText_CALCRECT pr (take (nat remaining) begin_text))])"
  using assms by (auto simp add: fit_text_def c_div_def Let_def)

text \<open>The theorem on 200 lines: half of them.\<close>

theorem fit_text_single_step_witness:
  "(0::int) < 200
   \<and> fit_text letter_printer (newlines 200) 200 = (100, [CalcRect_call (newlines 200) 20000])"
proof -
  have a: "(0::int) < 200" by simp
  from a fit_text_single_step [OF a, of letter_printer "newlines 200"] show ?thesis
    by (simp add: r_bottom_letter letter_printer_returns take_newlines length_newlines)
qed

text \<open>
  X4. Every page takes at least one character and no more than remain, so the page
  loop advances and ends.
\<close>

theorem fit_text_progress:
  assumes "0 < remaining"
  shows "0 < fst (fit_text pr begin_text remaining)
    \<and> fst (fit_text pr begin_text remaining) \<le> remaining"
  using assms by (auto simp add: fit_text_def c_div_def Let_def)

text \<open>The theorem on one remaining line that does not fit: it is taken all the same.\<close>

theorem fit_text_progress_witness:
  "(0::int) < 1
   \<and> fst (fit_text (letter_printer\<lparr>DrawText_CALCRECT := (\<lambda>s. 7000)\<rparr>) (newlines 1) 1) = 1"
proof -
  have a: "(0::int) < 1" by simp
  from a fit_text_progress [OF a, of "letter_printer\<lparr>DrawText_CALCRECT := (\<lambda>s. 7000)\<rparr>" "newlines 1"]
  show ?thesis by simp
qed

end
